theory Spec2Isabelle
  imports Main "HOL-Library.Word"
begin

section \<open>Shared vocabulary of the serverless handlers\<close>

text \<open>
  Every handler of the repository is a short request/response function that talks to
  external services (the Twilio REST client, a translation file served over HTTP, the
  SaferNet endpoint). The services are opaque: each is a parameter of the model, an
  oracle that maps the state of the outside world and the arguments of a call to a
  response and a new state of the world. A rejected promise or a thrown exception is the
  response \<open>Inl e\<close>. The model records every call it makes in a log, so that "no call was
  made" and "exactly this update was requested" are statements about the log.

  A JavaScript number is an IEEE 754 double. The numbers of these handlers
  (\<open>configuredCapacity\<close>, \<open>availableCapacityPercentage\<close>, the result of \<open>parseInt\<close>) are
  integer-valued, so an \<open>int\<close> stands for the double of that value; \<open>NaN\<close> of \<open>parseInt\<close> is
  \<open>None\<close>, and the infinities are left out. Such doubles compare as the integers do. Their
  sums and differences are rounded, as the next definitions say.
\<close>

text \<open>The distance between neighbouring doubles at the magnitude \<open>n\<close>: 1 below \<open>2^53\<close>, then
  2 up to \<open>2^54\<close>, 4 up to \<open>2^55\<close>, and so on (53 bits of significand).\<close>

fun doubleSpacing :: "nat \<Rightarrow> nat" where
  "doubleSpacing n = (if n < 2 ^ 53 then 1 else 2 * doubleSpacing (n div 2))"

text \<open>Rounding of an exact integer result to a double, to nearest and to the even
  significand in a tie (below the overflow threshold \<open>2^1024\<close>).\<close>

definition roundToDouble :: "int \<Rightarrow> int" where
  "roundToDouble x =
     (let n = nat \<bar>x\<bar>;
          u = doubleSpacing n;
          q = n div u;
          r = n mod u;
          significand = (if 2 * r < u then q
                         else if u < 2 * r then q + 1
                         else if even q then q else q + 1)
      in sgn x * int (significand * u))"

text \<open>The operators \<open>+\<close> and \<open>-\<close> of JavaScript on these numbers.\<close>

definition jsAdd :: "int \<Rightarrow> int \<Rightarrow> int" where
  "jsAdd a b = roundToDouble (a + b)"

definition jsSub :: "int \<Rightarrow> int \<Rightarrow> int" where
  "jsSub a b = roundToDouble (a - b)"

datatype error =
    Error string
  | RestException string
  | SyntaxError string
  | TypeError string
  | URIError string
  | AxiosError string

text \<open>The state a handler runs in: the outside world and the log of the calls made so far,
  oldest first.\<close>

record ('w, 'c) state =
  world :: 'w
  calls :: "'c list"

text \<open>The status/message pair that \<open>adjustChatCapacity\<close> returns.\<close>

record result =
  status :: int
  message :: string

text \<open>The responses built by the helpers \<open>error400\<close>, \<open>error403\<close>, \<open>error500\<close>,
  \<open>success\<close> and \<open>send\<close> of the serverless-helpers package, as passed to \<open>resolve\<close>.\<close>

datatype response =
    error400 string
  | error403 string
  | error500 error
  | success string
  | send int result

section \<open>adjustChatCapacity.ts\<close>

record WorkerChannelInstance =
  taskChannelUniqueName :: string
  configuredCapacity :: int
  availableCapacityPercentage :: int

record WorkerInstance =
  attributes :: string

record AdjustEnvVars =
  TWILIO_WORKSPACE_SID :: string

text \<open>The types \<open>EnvVars\<close> and \<open>Body\<close> of this file (other files declare their own
  under the same names). Both fields of the body are optional in the event (\<open>None\<close> is
  \<open>undefined\<close>); the adjustment arrives as a string of the request. \<open>ValidBody\<close> is
  \<open>Required<Pick<Body, 'adjustment' | 'workerSid'>>\<close>, with its fields \<open>workerSid\<close> and
  \<open>adjustment\<close> under the names \<open>validWorkerSid\<close> and \<open>validAdjustment\<close>. \<open>eventToken\<close> is
  the field \<open>Token\<close> of the event, which the token validator around the handler reads.\<close>

record AdjustBody =
  workerSid :: "string option"
  adjustment :: "string option"
  eventToken :: "string option"

record ValidBody =
  validWorkerSid :: string
  validAdjustment :: string

text \<open>\<open>TaskInstance\<close> is what \<open>tasks.get(taskSid).fetch()\<close> of the transfer helpers
  returns; the helpers read its \<open>sid\<close> only.\<close>

record TaskInstance =
  sid :: string

datatype taskrouter_call =
    WorkerFetch string string
  | WorkerChannelsList WorkerInstance
  | WorkerChannelUpdate WorkerChannelInstance int
  | TaskFetch string string
  | TokenValidation "string option"

text \<open>The TaskRouter client: \<open>workers(sid).fetch()\<close>, \<open>worker.workerChannels().list()\<close>,
  \<open>channel.update({capacity})\<close> and \<open>tasks.get(sid).fetch()\<close>, each from the world before
  the call to a response and the world after it. \<open>parseMaxMessageCapacity s\<close> stands for the
  pure expression \<open>parseInt(JSON.parse(s).maxMessageCapacity, 10)\<close>: \<open>Inl\<close> when
  \<open>JSON.parse\<close> or the property access throws, \<open>Inr None\<close> for \<open>NaN\<close>.
  \<open>tokenValidator\<close> is the decision of \<open>functionValidator\<close> of the serverless-helpers package
  (imported as \<open>TokenValidator\<close>; its code is not in the repository) on the \<open>Token\<close> of an
  event: \<open>Inl body\<close> when it answers the request itself with status 403 and that body,
  \<open>Inr ()\<close> when it lets the wrapped function run.\<close>

record 'w taskrouter =
  workers_fetch :: "'w \<Rightarrow> string \<Rightarrow> string \<Rightarrow> (error + WorkerInstance option) \<times> 'w"
  workerChannels_list :: "'w \<Rightarrow> WorkerInstance \<Rightarrow> (error + WorkerChannelInstance list) \<times> 'w"
  workerChannel_update ::
    "'w \<Rightarrow> WorkerChannelInstance \<Rightarrow> int \<Rightarrow> (error + WorkerChannelInstance) \<times> 'w"
  tasks_fetch :: "'w \<Rightarrow> string \<Rightarrow> string \<Rightarrow> (error + TaskInstance) \<times> 'w"
  tokenValidator :: "'w \<Rightarrow> string option \<Rightarrow> (string + unit) \<times> 'w"
  parseMaxMessageCapacity :: "string \<Rightarrow> error + int option"

type_synonym 'w tr_state = "('w, taskrouter_call) state"

definition fetchWorker ::
  "'w taskrouter \<Rightarrow> string \<Rightarrow> string \<Rightarrow> 'w tr_state
    \<Rightarrow> (error + WorkerInstance option) \<times> 'w tr_state" where
  "fetchWorker tr workspaceSid wSid s =
     (case workers_fetch tr (world s) workspaceSid wSid of
        (r, w') \<Rightarrow> (r, \<lparr>world = w', calls = calls s @ [WorkerFetch workspaceSid wSid]\<rparr>))"

definition listChannels ::
  "'w taskrouter \<Rightarrow> WorkerInstance \<Rightarrow> 'w tr_state
    \<Rightarrow> (error + WorkerChannelInstance list) \<times> 'w tr_state" where
  "listChannels tr worker s =
     (case workerChannels_list tr (world s) worker of
        (r, w') \<Rightarrow> (r, \<lparr>world = w', calls = calls s @ [WorkerChannelsList worker]\<rparr>))"

definition updateChannel ::
  "'w taskrouter \<Rightarrow> WorkerChannelInstance \<Rightarrow> int \<Rightarrow> 'w tr_state
    \<Rightarrow> (error + WorkerChannelInstance) \<times> 'w tr_state" where
  "updateChannel tr channel capacity s =
     (case workerChannel_update tr (world s) channel capacity of
        (r, w') \<Rightarrow> (r, \<lparr>world = w', calls = calls s @ [WorkerChannelUpdate channel capacity]\<rparr>))"

definition increaseChatCapacity ::
  "'w taskrouter \<Rightarrow> WorkerChannelInstance \<Rightarrow> int \<Rightarrow> 'w tr_state
    \<Rightarrow> (error + result \<times> WorkerChannelInstance) \<times> 'w tr_state" where
  "increaseChatCapacity tr channel maxMessageCapacity s =
     (if availableCapacityPercentage channel > 0 then
        (Inr (\<lparr>status = 412,
               message = ''Still have available capacity, no need to increase.''\<rparr>, channel), s)
      else if \<not> (configuredCapacity channel < maxMessageCapacity) then
        (Inr (\<lparr>status = 412, message = ''Reached the max capacity.''\<rparr>, channel), s)
      else
        (case updateChannel tr channel (jsAdd (configuredCapacity channel) 1) s of
           (Inl e, s') \<Rightarrow> (Inl e, s')
         | (Inr updatedChannel, s') \<Rightarrow>
             (Inr (\<lparr>status = 200, message = ''Successfully increased channel capacity''\<rparr>,
                   updatedChannel), s')))"

text \<open>The \<open>while (result.status === 200)\<close> loop of the
  \<open>increaseUntilCapacityAvailable\<close> branch. It returns the last result and channel, or the
  exception that left the loop; \<open>None\<close> is a loop that never ends.\<close>

partial_function (option) increaseLoop ::
  "'w taskrouter \<Rightarrow> int \<Rightarrow> result \<Rightarrow> WorkerChannelInstance \<Rightarrow> 'w tr_state
    \<Rightarrow> ((error + result \<times> WorkerChannelInstance) \<times> 'w tr_state) option" where
  "increaseLoop tr maxMessageCapacity res channel s =
     (if status res = 200 then
        (case increaseChatCapacity tr channel maxMessageCapacity s of
           (Inl e, s') \<Rightarrow> Some (Inl e, s')
         | (Inr (res', channel'), s') \<Rightarrow> increaseLoop tr maxMessageCapacity res' channel' s')
      else Some (Inr (res, channel), s))"

definition noMaxMessageCapacityMessage :: "string \<Rightarrow> string" where
  "noMaxMessageCapacityMessage wSid =
     ''Worker '' @ wSid @ '' does not have a '' @ [CHR 0x22] @ ''maxMessageCapacity'' @
     [CHR 0x22] @ '' attribute, can'' @ [CHR 0x27] @ ''t adjust capacity.''"

text \<open>\<open>adjustChatCapacity\<close> is one function in the source; the model has it in two parts.
  \<open>adjustChannel\<close> is its second half (lines 90 to 135): the branches on \<open>body.adjustment\<close>,
  once the chat channel and \<open>maxMessageCapacity\<close> are known. \<open>adjustChatCapacity\<close> below is its
  first half (lines 66 to 88), which finds the two, followed by \<open>adjustChannel\<close>.\<close>

definition adjustChannel ::
  "'w taskrouter \<Rightarrow> string \<Rightarrow> WorkerChannelInstance \<Rightarrow> int \<Rightarrow> 'w tr_state
    \<Rightarrow> ((error + result) \<times> 'w tr_state) option" where
  "adjustChannel tr adj channel maxMessageCapacity s =
     (if adj = ''increase'' then
        (case increaseChatCapacity tr channel maxMessageCapacity s of
           (Inl e, s') \<Rightarrow> Some (Inl e, s')
         | (Inr (res, _), s') \<Rightarrow> Some (Inr res, s'))
      else if adj = ''increaseUntilCapacityAvailable'' then
        (case increaseLoop tr maxMessageCapacity \<lparr>status = 200, message = ''''\<rparr> channel s of
           None \<Rightarrow> None
         | Some (Inl e, s') \<Rightarrow> Some (Inl e, s')
         | Some (Inr (_, channel'), s') \<Rightarrow>
             (if configuredCapacity channel' = maxMessageCapacity
                 \<and> availableCapacityPercentage channel' = 0
              then Some (Inr \<lparr>status = 412,
                     message = ''Reached the max capacity with no available capacity.''\<rparr>, s')
              else Some (Inr \<lparr>status = 200,
                     message = ''Adjusted chat capacity until there is capacity available''\<rparr>,
                     s')))
      else if adj = ''decrease'' then
        (if jsSub (configuredCapacity channel) 1 \<ge> 1 then
           (case updateChannel tr channel (jsSub (configuredCapacity channel) 1) s of
              (Inl e, s') \<Rightarrow> Some (Inl e, s')
            | (Inr _, s') \<Rightarrow>
                Some (Inr \<lparr>status = 200, message = ''Successfully decreased channel capacity''\<rparr>,
                      s'))
         else
           Some (Inr \<lparr>status = 200, message = ''Successfully decreased channel capacity''\<rparr>, s))
      else if adj = ''setTo1'' then
        (if configuredCapacity channel \<noteq> 1 then
           (case updateChannel tr channel (jsSub (configuredCapacity channel) 1) s of
              (Inl e, s') \<Rightarrow> Some (Inl e, s')
            | (Inr _, s') \<Rightarrow>
                Some (Inr \<lparr>status = 200,
                       message = ''Successfully reset channel capacity to 1''\<rparr>, s'))
         else
           Some (Inr \<lparr>status = 200,
                  message = ''Channel capacity already 1, no adjustment made.''\<rparr>, s))
      else Some (Inr \<lparr>status = 400, message = ''Invalid adjustment argument''\<rparr>, s))"

definition adjustChatCapacity ::
  "'w taskrouter \<Rightarrow> AdjustEnvVars \<Rightarrow> ValidBody \<Rightarrow> 'w tr_state
    \<Rightarrow> ((error + result) \<times> 'w tr_state) option" where
  "adjustChatCapacity tr context body s =
     (case fetchWorker tr (TWILIO_WORKSPACE_SID context) (validWorkerSid body) s of
        (Inl e, s1) \<Rightarrow> Some (Inl e, s1)
      | (Inr None, s1) \<Rightarrow> Some (Inr \<lparr>status = 404, message = ''Could not find worker.''\<rparr>, s1)
      | (Inr (Some worker), s1) \<Rightarrow>
          (case parseMaxMessageCapacity tr (attributes worker) of
             Inl e \<Rightarrow> Some (Inl e, s1)
           | Inr None \<Rightarrow>
               Some (Inr \<lparr>status = 409,
                      message = noMaxMessageCapacityMessage (validWorkerSid body)\<rparr>, s1)
           | Inr (Some maxMessageCapacity) \<Rightarrow>
               (if maxMessageCapacity = 0 then
                  Some (Inr \<lparr>status = 409,
                         message = noMaxMessageCapacityMessage (validWorkerSid body)\<rparr>, s1)
                else
                  (case listChannels tr worker s1 of
                     (Inl e, s2) \<Rightarrow> Some (Inl e, s2)
                   | (Inr channels, s2) \<Rightarrow>
                       (case find (\<lambda>c. taskChannelUniqueName c = ''chat'') channels of
                          None \<Rightarrow>
                            Some (Inr \<lparr>status = 404,
                                   message = ''Could not find chat channel.''\<rparr>, s2)
                        | Some channel \<Rightarrow>
                            adjustChannel tr (validAdjustment body) channel
                              maxMessageCapacity s2)))))"

text \<open>The function that line 140 wraps in \<open>TokenValidator\<close>: the checks of the two fields
  and the call of \<open>adjustChatCapacity\<close>. Every exception of its \<open>try\<close> block is resolved as
  \<open>error500\<close>.\<close>

definition handlerFn ::
  "'w taskrouter \<Rightarrow> AdjustEnvVars \<Rightarrow> AdjustBody \<Rightarrow> 'w tr_state
    \<Rightarrow> (response \<times> 'w tr_state) option" where
  "handlerFn tr context event s =
     (case workerSid event of
        None \<Rightarrow> Some (error400 ''workerSid'', s)
      | Some wSid \<Rightarrow>
          (case adjustment event of
             None \<Rightarrow> Some (error400 ''adjustment'', s)
           | Some adj \<Rightarrow>
               (case adjustChatCapacity tr context
                       \<lparr>validWorkerSid = wSid, validAdjustment = adj\<rparr> s of
                  None \<Rightarrow> None
                | Some (Inl err, s') \<Rightarrow> Some (error500 err, s')
                | Some (Inr res, s') \<Rightarrow>
                    Some (send (status res) \<lparr>status = status res, message = message res\<rparr>,
                          s'))))"

definition validateEventToken ::
  "'w taskrouter \<Rightarrow> string option \<Rightarrow> 'w tr_state \<Rightarrow> (string + unit) \<times> 'w tr_state" where
  "validateEventToken tr token s =
     (case tokenValidator tr (world s) token of
        (r, w') \<Rightarrow> (r, \<lparr>world = w', calls = calls s @ [TokenValidation token]\<rparr>))"

text \<open>The \<open>handler\<close> that \<open>adjustChatCapacity.ts\<close> exports: \<open>TokenValidator(handlerFn)\<close>. The
  validator decides first; a request that it rejects is answered with status 403 (written
  \<open>error403\<close> of the body that the validator chose) and the wrapped function does not run.\<close>

definition adjustChatCapacity_handler ::
  "'w taskrouter \<Rightarrow> AdjustEnvVars \<Rightarrow> AdjustBody \<Rightarrow> 'w tr_state
    \<Rightarrow> (response \<times> 'w tr_state) option" where
  "adjustChatCapacity_handler tr context event s =
     (case validateEventToken tr (eventToken event) s of
        (Inl rejection, s1) \<Rightarrow> Some (error403 rejection, s1)
      | (Inr _, s1) \<Rightarrow> handlerFn tr context event s1)"

text \<open>The precondition under which the capacity loop is studied: whenever
  \<open>channel.update({capacity: n})\<close> returns, the channel it returns has \<open>configuredCapacity\<close>
  \<open>n\<close>.\<close>

definition updateSetsCapacity :: "'w taskrouter \<Rightarrow> bool" where
  "updateSetsCapacity tr =
     (\<forall>w ch n ch' w'. workerChannel_update tr w ch n = (Inr ch', w')
        \<longrightarrow> configuredCapacity ch' = n)"

section \<open>Transfer helpers: hasTaskControl\<close>

datatype transfer_mode = COLD | WARM

datatype transfer_status = Transferring | Accepted | Rejected

datatype transfer_target = TargetWorker | TargetQueue

record TransferMeta =
  mode :: transfer_mode
  transferStatus :: transfer_status
  sidWithTaskControl :: string

record ChatTransferTaskAttributes =
  transferMeta :: "TransferMeta option"
  transferTargetType :: "transfer_target option"

text \<open>The argument \<open>taskAttributes\<close> is guarded by \<open>taskAttributes && ...\<close> in the source, so a
  missing attributes object (\<open>None\<close>) is an input of the model. An object is always truthy,
  so \<open>Boolean(...)\<close> is true exactly when \<open>transferMeta\<close> is there.\<close>

definition hasTransferStarted :: "ChatTransferTaskAttributes option \<Rightarrow> bool" where
  "hasTransferStarted taskAttributes =
     (case taskAttributes of
        None \<Rightarrow> False
      | Some a \<Rightarrow> (case transferMeta a of None \<Rightarrow> False | Some _ \<Rightarrow> True))"

definition fetchTask ::
  "'w taskrouter \<Rightarrow> string \<Rightarrow> string \<Rightarrow> 'w tr_state \<Rightarrow> (error + TaskInstance) \<times> 'w tr_state" where
  "fetchTask tr workspaceSid taskSid s =
     (case tasks_fetch tr (world s) workspaceSid taskSid of
        (r, w') \<Rightarrow> (r, \<lparr>world = w', calls = calls s @ [TaskFetch workspaceSid taskSid]\<rparr>))"

text \<open>\<open>taskAttributes.transferMeta?.sidWithTaskControl === task.sid\<close>: the optional chain
  gives \<open>undefined\<close> without a \<open>transferMeta\<close>, which is not \<open>===\<close> to a string; reading
  \<open>transferMeta\<close> of a missing attributes object throws.\<close>

definition hasTaskControl ::
  "'w taskrouter \<Rightarrow> string \<Rightarrow> string \<Rightarrow> ChatTransferTaskAttributes option \<Rightarrow> 'w tr_state
    \<Rightarrow> (error + bool) \<times> 'w tr_state" where
  "hasTaskControl client workspaceSid taskSid taskAttributes s =
     (if \<not> hasTransferStarted taskAttributes then (Inr True, s)
      else
        (case fetchTask client workspaceSid taskSid s of
           (Inl e, s') \<Rightarrow> (Inl e, s')
         | (Inr task, s') \<Rightarrow>
             (case taskAttributes of
                None \<Rightarrow> (Inl (TypeError ''Cannot read properties of undefined''), s')
              | Some a \<Rightarrow>
                  (case transferMeta a of
                     None \<Rightarrow> (Inr False, s')
                   | Some tm \<Rightarrow> (Inr (sidWithTaskControl tm = sid task), s')))))"

section \<open>sendErrorMessageForUnsupportedMedia.private.ts\<close>

text \<open>\<open>OnMessageAddedEvent\<close>. \<open>Body\<close> is an optional string, falsy when it is \<open>undefined\<close> or
  empty. \<open>Media\<close> is an optional \<open>Record<string, any>\<close>: an object, truthy whenever it is
  there, also with no entries.\<close>

record Event =
  EventType :: string
  Body :: "string option"
  ConversationSid :: string
  Media :: "(string \<times> string) list option"
  DateCreated :: string

record ConversationContext =
  DOMAIN_NAME :: string

record ServiceConfigurationAttributes =
  helplineLanguage :: "string option"

record ServiceConfiguration =
  configurationAttributes :: ServiceConfigurationAttributes

text \<open>The argument of \<open>messages.create\<close>: \<open>attributes\<close> is present only when
  \<open>messageAttributes\<close> is truthy.\<close>

record MessageCreateOptions =
  messageBody :: string
  author :: string
  xTwilioWebhookEnabled :: string
  messageCreateAttributes :: "string option"

datatype conversation_call =
    FlexConfigurationFetch
  | HttpFetchJson string
  | MessageCreate string MessageCreateOptions

text \<open>The services this file talks to: \<open>flexApi.configuration.get().fetch()\<close>, the global
  \<open>fetch(url)\<close> followed by \<open>response.json()\<close> (one oracle: either step throwing is \<open>Inl\<close>;
  the parsed \<open>messages.json\<close> is a list of key/value pairs), and
  \<open>conversations.get(sid).messages.create(options)\<close>.\<close>

record 'w conversations =
  flexConfiguration_fetch :: "'w \<Rightarrow> (error + ServiceConfiguration) \<times> 'w"
  fetch_json :: "'w \<Rightarrow> string \<Rightarrow> (error + (string \<times> string) list) \<times> 'w"
  messages_create :: "'w \<Rightarrow> string \<Rightarrow> MessageCreateOptions \<Rightarrow> (error + unit) \<times> 'w"

type_synonym 'w cv_state = "('w, conversation_call) state"

definition FALLBACK_ERROR_MESSAGE :: string where
  "FALLBACK_ERROR_MESSAGE = ''Unsupported message type.''"

definition ERROR_MESSAGE_TRANSLATION_KEY :: string where
  "ERROR_MESSAGE_TRANSLATION_KEY = ''UnsupportedMediaErrorMsg''"

text \<open>JavaScript truthiness of an optional string: \<open>undefined\<close> and \<open>''\<close> are falsy.\<close>

definition truthy :: "string option \<Rightarrow> bool" where
  "truthy v = (case v of None \<Rightarrow> False | Some t \<Rightarrow> t \<noteq> [])"

definition fetchConfiguration ::
  "'w conversations \<Rightarrow> 'w cv_state \<Rightarrow> (error + ServiceConfiguration) \<times> 'w cv_state" where
  "fetchConfiguration cv s =
     (case flexConfiguration_fetch cv (world s) of
        (r, w') \<Rightarrow> (r, \<lparr>world = w', calls = calls s @ [FlexConfigurationFetch]\<rparr>))"

definition fetchJson ::
  "'w conversations \<Rightarrow> string \<Rightarrow> 'w cv_state
    \<Rightarrow> (error + (string \<times> string) list) \<times> 'w cv_state" where
  "fetchJson cv url s =
     (case fetch_json cv (world s) url of
        (r, w') \<Rightarrow> (r, \<lparr>world = w', calls = calls s @ [HttpFetchJson url]\<rparr>))"

definition sendConversationMessage ::
  "'w conversations \<Rightarrow> string \<Rightarrow> string \<Rightarrow> string \<Rightarrow> string option \<Rightarrow> 'w cv_state
    \<Rightarrow> (error + unit) \<times> 'w cv_state" where
  "sendConversationMessage cv conversationSid auth messageText messageAttributes s =
     (let options = \<lparr>messageBody = messageText, author = auth, xTwilioWebhookEnabled = ''true'',
                     messageCreateAttributes =
                       (if truthy messageAttributes then messageAttributes else None)\<rparr>
      in case messages_create cv (world s) conversationSid options of
           (r, w') \<Rightarrow>
             (r, \<lparr>world = w', calls = calls s @ [MessageCreate conversationSid options]\<rparr>))"

definition translationUrl :: "ConversationContext \<Rightarrow> string \<Rightarrow> string" where
  "translationUrl context lang =
     ''https://'' @ DOMAIN_NAME context @ ''/translations/'' @ lang @ ''/messages.json''"

text \<open>In the model of \<open>sendErrorMessageForUnsupportedMedia\<close>, the \<open>catch\<close> of the translation
  fetch leaves the fallback text in place, and \<open>translatedMessage || messageText\<close> keeps it
  when the key is missing or its value is empty. An exception of the configuration fetch or
  of \<open>messages.create\<close> is not caught: it is the result \<open>Inl e\<close>.\<close>

definition sendErrorMessageForUnsupportedMedia ::
  "'w conversations \<Rightarrow> ConversationContext \<Rightarrow> Event \<Rightarrow> 'w cv_state
    \<Rightarrow> (error + unit) \<times> 'w cv_state" where
  "sendErrorMessageForUnsupportedMedia cv context event s =
     (if \<not> truthy (Body event) \<and> Media event = None then
        (case fetchConfiguration cv s of
           (Inl e, s1) \<Rightarrow> (Inl e, s1)
         | (Inr serviceConfig, s1) \<Rightarrow>
             (let lang = (case helplineLanguage (configurationAttributes serviceConfig) of
                            None \<Rightarrow> ''en-US'' | Some l \<Rightarrow> l);
                  (messageText, s2) =
                    (if lang \<noteq> [] then
                       (case fetchJson cv (translationUrl context lang) s1 of
                          (Inl _, s') \<Rightarrow> (FALLBACK_ERROR_MESSAGE, s')
                        | (Inr translation, s') \<Rightarrow>
                            (case map_of translation ERROR_MESSAGE_TRANSLATION_KEY of
                               None \<Rightarrow> (FALLBACK_ERROR_MESSAGE, s')
                             | Some translatedMessage \<Rightarrow>
                                 (if translatedMessage \<noteq> [] then translatedMessage
                                  else FALLBACK_ERROR_MESSAGE, s')))
                     else (FALLBACK_ERROR_MESSAGE, s1))
              in sendConversationMessage cv (ConversationSid event) ''Bot'' messageText None s2))
      else (Inr (), s))"

section \<open>saveContactToSaferNet.ts\<close>

text \<open>\<open>Body\<close> and \<open>EnvVars\<close> of this file. An environment variable that is not set is falsy,
  as the empty string is.\<close>

record SaveContactBody =
  payload :: string
  Token :: "string option"
  ApiKey :: "string option"

record SaveContactEnvVars =
  ACCOUNT_SID :: string
  AUTH_TOKEN :: string
  SAVE_PENDING_CONTACTS_STATIC_KEY :: string
  SAFERNET_ENDPOINT :: string
  SAFERNET_TOKEN :: string

text \<open>The argument of the \<open>axios\<close> call; \<open>'j\<close> is the type of parsed JSON values.\<close>

record 'j AxiosRequestConfig =
  url :: string
  requestMethod :: string
  data :: 'j
  headers :: "(string \<times> string) list"

text \<open>The fields of \<open>saferNetResponse.data\<close> that the handler reads; \<open>dataSuccess\<close> is the
  truthiness of \<open>data.success\<close>.\<close>

record SaferNetData =
  dataSuccess :: bool
  post_survey_link :: string
  error_message :: string

datatype 'j safernet_call =
    ValidateToken string string string
  | AxiosRequest "'j AxiosRequestConfig"

text \<open>What the handler calls: the token validator and \<open>axios\<close> (services, with a world),
  and the pure library functions \<open>encodeURIComponent\<close>, \<open>JSON.parse\<close> (both can throw) and
  the raw HMAC-SHA256 of \<open>crypto.createHmac('sha256', key).update(text)\<close>, as bytes.\<close>

record ('w, 'j) safernet =
  validateToken :: "'w \<Rightarrow> string \<Rightarrow> string \<Rightarrow> string \<Rightarrow> (error + unit) \<times> 'w"
  axios :: "'w \<Rightarrow> 'j AxiosRequestConfig \<Rightarrow> (error + SaferNetData) \<times> 'w"
  encodeURIComponent :: "string \<Rightarrow> error + string"
  JSON_parse :: "string \<Rightarrow> error + 'j"
  hmac_sha256 :: "string \<Rightarrow> string \<Rightarrow> 8 word list"

type_synonym ('w, 'j) sn_state = "('w, 'j safernet_call) state"

text \<open>\<open>digest('hex')\<close>: two lowercase hexadecimal digits for each byte.\<close>

definition hexDigit :: "nat \<Rightarrow> char" where
  "hexDigit n = ''0123456789abcdef'' ! (n mod 16)"

definition digestHex :: "8 word list \<Rightarrow> string" where
  "digestHex bytes = concat (map (\<lambda>b. [hexDigit (unat b div 16), hexDigit (unat b mod 16)]) bytes)"

definition isValidRequest ::
  "('w, 'j) safernet \<Rightarrow> SaveContactEnvVars \<Rightarrow> SaveContactBody \<Rightarrow> ('w, 'j) sn_state
    \<Rightarrow> bool \<times> ('w, 'j) sn_state" where
  "isValidRequest sn context event s =
     (if truthy (Token event) then
        (case Token event of
           None \<Rightarrow> (False, s)
         | Some token \<Rightarrow>
             (case validateToken sn (world s) token (ACCOUNT_SID context) (AUTH_TOKEN context) of
                (r, w') \<Rightarrow>
                  (case r of Inr _ \<Rightarrow> True | Inl _ \<Rightarrow> False,
                   \<lparr>world = w',
                    calls = calls s @
                      [ValidateToken token (ACCOUNT_SID context) (AUTH_TOKEN context)]\<rparr>)))
      else if truthy (ApiKey event) then
        (ApiKey event = Some (SAVE_PENDING_CONTACTS_STATIC_KEY context), s)
      else (False, s))"

text \<open>The handler of \<open>saveContactToSaferNet.ts\<close>. Its result is the exception that it throws,
  if any (a missing environment variable), the responses passed to \<open>resolve\<close>, in order, and
  the state.\<close>

definition saveContactToSaferNet_handler ::
  "('w, 'j) safernet \<Rightarrow> SaveContactEnvVars \<Rightarrow> SaveContactBody \<Rightarrow> ('w, 'j) sn_state
    \<Rightarrow> (error + unit) \<times> response list \<times> ('w, 'j) sn_state" where
  "saveContactToSaferNet_handler sn context event s =
     (if SAFERNET_ENDPOINT context = [] then
        (Inl (Error ''SAFERNET_ENDPOINT env var not provided.''), [], s)
      else if SAFERNET_TOKEN context = [] then
        (Inl (Error ''SAFERNET_TOKEN env var not provided.''), [], s)
      else if SAVE_PENDING_CONTACTS_STATIC_KEY context = [] then
        (Inl (Error ''SAVE_PENDING_CONTACTS_STATIC_KEY env var not provided.''), [], s)
      else
        (case isValidRequest sn context event s of
           (False, s1) \<Rightarrow> (Inr (), [error403 ''No AccessToken or ApiKey was found''], s1)
         | (True, s1) \<Rightarrow>
             (case encodeURIComponent sn (payload event) of
                Inl err \<Rightarrow> (Inr (), [error500 err], s1)
              | Inr encoded \<Rightarrow>
                  (let signedPayload = digestHex (hmac_sha256 sn (SAFERNET_TOKEN context) encoded)
                   in case JSON_parse sn (payload event) of
                        Inl err \<Rightarrow> (Inr (), [error500 err], s1)
                      | Inr parsed \<Rightarrow>
                          (let request =
                                 \<lparr>url = SAFERNET_ENDPOINT context, requestMethod = ''POST'',
                                  data = parsed,
                                  headers = [(''Content-Type'', ''application/json''),
                                             (''X-Signature'', ''sha256='' @ signedPayload)]\<rparr>
                           in case axios sn (world s1) request of
                                (r, w') \<Rightarrow>
                                  (let s2 = \<lparr>world = w',
                                             calls = calls s1 @ [AxiosRequest request]\<rparr>
                                   in case r of
                                        Inl err \<Rightarrow> (Inr (), [error500 err], s2)
                                      | Inr saferNetData \<Rightarrow>
                                          (if dataSuccess saferNetData then
                                             (Inr (),
                                              [success (post_survey_link saferNetData)], s2)
                                           else
                                             (Inr (),
                                              [error500 (Error (error_message saferNetData))],
                                              s2))))))))"

section \<open>Concrete services, for running the handlers\<close>

text \<open>A TaskRouter whose worker has the channels \<open>voice\<close> and the given chat channel, and
  whose \<open>update\<close> sets the capacity asked for and leaves the rest of the channel as it is;
  the world counts the updates. The worker's attributes parse to the given
  \<open>maxMessageCapacity\<close>. A fetched task has the sid it was asked for. The token validator
  accepts the token \<open>good\<close> and rejects every other request, also one without a token.\<close>

definition exampleTaskrouter :: "WorkerChannelInstance \<Rightarrow> int option \<Rightarrow> nat taskrouter" where
  "exampleTaskrouter chat maxCapacity =
     \<lparr>workers_fetch = (\<lambda>w workspaceSid wSid. (Inr (Some \<lparr>attributes = ''{}''\<rparr>), w)),
      workerChannels_list = (\<lambda>w worker.
        (Inr [\<lparr>taskChannelUniqueName = ''voice'', configuredCapacity = 1,
                availableCapacityPercentage = 100\<rparr>, chat], w)),
      workerChannel_update = (\<lambda>w ch n. (Inr (ch\<lparr>configuredCapacity := n\<rparr>), Suc w)),
      tasks_fetch = (\<lambda>w workspaceSid taskSid. (Inr \<lparr>sid = taskSid\<rparr>, w)),
      tokenValidator = (\<lambda>w token.
        (if token = Some ''good'' then Inr () else Inl ''Unauthorized'', w)),
      parseMaxMessageCapacity = (\<lambda>a. Inr maxCapacity)\<rparr>"

definition chatChannel :: "int \<Rightarrow> int \<Rightarrow> WorkerChannelInstance" where
  "chatChannel capacity available =
     \<lparr>taskChannelUniqueName = ''chat'', configuredCapacity = capacity,
      availableCapacityPercentage = available\<rparr>"

definition exampleContext :: AdjustEnvVars where
  "exampleContext = \<lparr>TWILIO_WORKSPACE_SID = ''WS1''\<rparr>"

definition exampleBody :: "string \<Rightarrow> ValidBody" where
  "exampleBody adj = \<lparr>validWorkerSid = ''WK1'', validAdjustment = adj\<rparr>"

definition initialState :: "(nat, 'c) state" where
  "initialState = \<lparr>world = 0, calls = []\<rparr>"

text \<open>The state after the worker and its channels were fetched from \<open>exampleTaskrouter\<close>.\<close>

definition fetchedState :: "nat tr_state" where
  "fetchedState =
     \<lparr>world = 0,
      calls = [WorkerFetch ''WS1'' ''WK1'', WorkerChannelsList \<lparr>attributes = ''{}''\<rparr>]\<rparr>"

text \<open>A TaskRouter that accepts every update and changes nothing: the channel it returns is
  the channel it was given.\<close>

definition stuckTaskrouter :: "nat taskrouter" where
  "stuckTaskrouter =
     \<lparr>workers_fetch = (\<lambda>w workspaceSid wSid. (Inr (Some \<lparr>attributes = ''{}''\<rparr>), w)),
      workerChannels_list = (\<lambda>w worker. (Inr [chatChannel 1 0], w)),
      workerChannel_update = (\<lambda>w ch n. (Inr ch, w)),
      tasks_fetch = (\<lambda>w workspaceSid taskSid. (Inr \<lparr>sid = taskSid\<rparr>, w)),
      tokenValidator = (\<lambda>w token.
        (if token = Some ''good'' then Inr () else Inl ''Unauthorized'', w)),
      parseMaxMessageCapacity = (\<lambda>a. Inr (Some 3))\<rparr>"

text \<open>Task attributes of a transfer whose control is with the task \<open>WT1\<close>.\<close>

definition transferAttributes :: ChatTransferTaskAttributes where
  "transferAttributes =
     \<lparr>transferMeta = Some \<lparr>mode = COLD, transferStatus = Accepted,
                            sidWithTaskControl = ''WT1''\<rparr>,
      transferTargetType = Some TargetWorker\<rparr>"

text \<open>Conversation services with the given helpline language and the given answer of the
  translation fetch; the world counts the messages created.\<close>

definition exampleConversations ::
  "string option \<Rightarrow> error + (string \<times> string) list \<Rightarrow> nat conversations" where
  "exampleConversations language translation =
     \<lparr>flexConfiguration_fetch = (\<lambda>w.
        (Inr \<lparr>configurationAttributes = \<lparr>helplineLanguage = language\<rparr>\<rparr>, w)),
      fetch_json = (\<lambda>w u. (translation, w)),
      messages_create = (\<lambda>w conversationSid options. (Inr (), Suc w))\<rparr>"

definition exampleDomain :: ConversationContext where
  "exampleDomain = \<lparr>DOMAIN_NAME = ''example.twil.io''\<rparr>"

definition exampleEvent :: "string option \<Rightarrow> (string \<times> string) list option \<Rightarrow> Event" where
  "exampleEvent text media =
     \<lparr>EventType = ''onMessageAdded'', Body = text, ConversationSid = ''CH1'', Media = media,
      DateCreated = ''2023-01-01T00:00:00Z''\<rparr>"

text \<open>SaferNet services for running the handler. Parsed JSON is kept as its text, and only
  the payload \<open>1\<close> parses; \<open>encodeURIComponent\<close> leaves unreserved characters, the only ones
  in that payload, as they are; the bytes of the digest are fixed. The token \<open>good\<close> is the
  valid one, and the world counts the requests.\<close>

definition exampleSaferNet :: "error + SaferNetData \<Rightarrow> (nat, string) safernet" where
  "exampleSaferNet answer =
     \<lparr>validateToken = (\<lambda>w token accountSid authToken.
        (if token = ''good'' then Inr () else Inl (Error ''Invalid token''), w)),
      axios = (\<lambda>w request. (answer, Suc w)),
      encodeURIComponent = (\<lambda>t. Inr t),
      JSON_parse = (\<lambda>t. if t = ''1'' then Inr t else Inl (SyntaxError ''Unexpected token'')),
      hmac_sha256 = (\<lambda>key t. [0xAB, 0x01])\<rparr>"

definition exampleSaveContext :: SaveContactEnvVars where
  "exampleSaveContext =
     \<lparr>ACCOUNT_SID = ''AC1'', AUTH_TOKEN = ''auth'', SAVE_PENDING_CONTACTS_STATIC_KEY = ''key'',
      SAFERNET_ENDPOINT = ''https://safernet.example/survey'', SAFERNET_TOKEN = ''secret''\<rparr>"

definition exampleSaveEvent :: "string \<Rightarrow> SaveContactBody" where
  "exampleSaveEvent p = \<lparr>payload = p, Token = None, ApiKey = Some ''key''\<rparr>"

definition exampleRequest :: "string AxiosRequestConfig" where
  "exampleRequest =
     \<lparr>url = ''https://safernet.example/survey'', requestMethod = ''POST'', data = ''1'',
      headers = [(''Content-Type'', ''application/json''), (''X-Signature'', ''sha256=ab01'')]\<rparr>"

section \<open>Properties of adjustChatCapacity.ts\<close>

subsection \<open>Sums of doubles\<close>

declare doubleSpacing.simps [simp del]

lemma doubleSpacing_below: "n < 2 ^ 53 \<Longrightarrow> doubleSpacing n = 1"
  by (subst doubleSpacing.simps) simp

lemma doubleSpacing_2_53: "doubleSpacing 9007199254740992 = 2"
  by (subst doubleSpacing.simps) (simp add: doubleSpacing_below)

lemma doubleSpacing_2_53_1: "doubleSpacing 9007199254740993 = 2"
  by (subst doubleSpacing.simps) (simp add: doubleSpacing_below)

text \<open>Up to \<open>2^53\<close> in magnitude every integer is a double, and nothing is rounded.\<close>

lemma roundToDouble_exact:
  assumes "\<bar>x\<bar> \<le> 2 ^ 53"
  shows "roundToDouble x = x"
proof (cases "\<bar>x\<bar> < 2 ^ 53")
  case True
  then have "nat \<bar>x\<bar> < 2 ^ 53" by simp
  then have "doubleSpacing (nat \<bar>x\<bar>) = 1" by (rule doubleSpacing_below)
  then show ?thesis
    by (simp add: roundToDouble_def Let_def mult_sgn_abs)
next
  case False
  with assms have a: "\<bar>x\<bar> = 9007199254740992" by simp
  then have n: "nat \<bar>x\<bar> = 9007199254740992" by simp
  have "sgn x * 9007199254740992 = x" using a by (metis mult_sgn_abs)
  then show ?thesis
    by (simp add: roundToDouble_def Let_def n doubleSpacing_2_53)
qed

lemma jsAdd_exact: "\<bar>a + b\<bar> \<le> 2 ^ 53 \<Longrightarrow> jsAdd a b = a + b"
  by (simp add: jsAdd_def roundToDouble_exact)

lemma jsSub_exact: "\<bar>a - b\<bar> \<le> 2 ^ 53 \<Longrightarrow> jsSub a b = a - b"
  by (simp add: jsSub_def roundToDouble_exact)

text \<open>At \<open>2^53 = 9007199254740992\<close> adding 1 changes nothing: \<open>2^53 + 1\<close> lies halfway between
  the doubles \<open>2^53\<close> and \<open>2^53 + 2\<close>, and \<open>2^53\<close> has the even significand.\<close>

lemma jsAdd_2_53: "jsAdd 9007199254740992 1 = 9007199254740992"
proof -
  have "nat \<bar>9007199254740992 + 1 :: int\<bar> = 9007199254740993" by simp
  then show ?thesis
    by (simp add: jsAdd_def roundToDouble_def Let_def doubleSpacing_2_53_1)
qed

subsection \<open>Helper facts\<close>

lemma updateChannel_eq:
  "updateChannel tr channel capacity s =
     (fst (workerChannel_update tr (world s) channel capacity),
      \<lparr>world = snd (workerChannel_update tr (world s) channel capacity),
       calls = calls s @ [WorkerChannelUpdate channel capacity]\<rparr>)"
  by (simp add: updateChannel_def split: prod.split)

lemma increaseChatCapacity_step:
  assumes upd: "updateSetsCapacity tr"
    and lo: "- (2 ^ 53) \<le> configuredCapacity channel"
    and hi: "m \<le> 2 ^ 53"
    and step: "increaseChatCapacity tr channel m s = (Inr (res, channel'), s')"
  shows "status res \<noteq> 200
         \<or> (configuredCapacity channel' = configuredCapacity channel + 1
            \<and> configuredCapacity channel' \<le> m)"
proof (cases "availableCapacityPercentage channel > 0 \<or> \<not> configuredCapacity channel < m")
  case True
  with step show ?thesis
    by (auto simp: increaseChatCapacity_def split: if_splits)
next
  case False
  with lo hi have "\<bar>configuredCapacity channel + 1\<bar> \<le> 2 ^ 53" by (simp add: abs_le_iff)
  then have exact: "jsAdd (configuredCapacity channel) 1 = configuredCapacity channel + 1"
    by (rule jsAdd_exact)
  obtain r w' where o: "workerChannel_update tr (world s) channel (configuredCapacity channel + 1)
                         = (r, w')"
    by (cases "workerChannel_update tr (world s) channel (configuredCapacity channel + 1)")
  with False step exact have "r = Inr channel'"
    by (auto simp: increaseChatCapacity_def updateChannel_def split: sum.splits)
  with o upd have "configuredCapacity channel' = configuredCapacity channel + 1"
    unfolding updateSetsCapacity_def by blast
  with False show ?thesis by simp
qed

lemma increaseLoop_exit:
  "status res \<noteq> 200 \<Longrightarrow> increaseLoop tr m res channel s = Some (Inr (res, channel), s)"
  by (subst increaseLoop.simps) simp

lemma increaseLoop_throw:
  "status res = 200 \<Longrightarrow> increaseChatCapacity tr channel m s = (Inl e, s')
    \<Longrightarrow> increaseLoop tr m res channel s = Some (Inl e, s')"
  by (subst increaseLoop.simps) simp

lemma increaseLoop_again:
  "status res = 200 \<Longrightarrow> increaseChatCapacity tr channel m s = (Inr (res', channel'), s')
    \<Longrightarrow> increaseLoop tr m res channel s = increaseLoop tr m res' channel' s'"
  by (subst increaseLoop.simps) simp

lemma increaseLoop_returns:
  assumes upd: "updateSetsCapacity tr"
    and hi: "m \<le> 2 ^ 53"
    and lo: "- (2 ^ 53) \<le> configuredCapacity channel"
  shows "\<exists>out. increaseLoop tr m res channel s = Some out"
  using lo
proof (induction "nat (m - configuredCapacity channel)" arbitrary: res channel s
        rule: less_induct)
  case less
  show ?case
  proof (cases "status res = 200")
    case False
    then show ?thesis by (simp add: increaseLoop_exit)
  next
    case True
    obtain r s' where step: "increaseChatCapacity tr channel m s = (r, s')"
      by (cases "increaseChatCapacity tr channel m s")
    show ?thesis
    proof (cases r)
      case (Inl e)
      with True step show ?thesis by (simp add: increaseLoop_throw)
    next
      case (Inr p)
      obtain res' channel' where p: "p = (res', channel')" by (cases p)
      from step Inr p have step': "increaseChatCapacity tr channel m s = (Inr (res', channel'), s')"
        by simp
      have again: "increaseLoop tr m res channel s = increaseLoop tr m res' channel' s'"
        using True step' by (rule increaseLoop_again)
      show ?thesis
      proof (cases "status res' = 200")
        case False
        with again show ?thesis by (simp add: increaseLoop_exit)
      next
        case True
        with increaseChatCapacity_step [OF upd less.prems hi step']
        have c: "configuredCapacity channel' = configuredCapacity channel + 1"
          and "configuredCapacity channel' \<le> m" by simp_all
        then have "nat (m - configuredCapacity channel') < nat (m - configuredCapacity channel)"
          by simp
        moreover from c less.prems have "- (2 ^ 53) \<le> configuredCapacity channel'" by simp
        ultimately have "\<exists>out. increaseLoop tr m res' channel' s' = Some out"
          by (rule less.hyps)
        with again show ?thesis by simp
      qed
    qed
  qed
qed

lemma adjustChatCapacity_reaches:
  assumes "fetchWorker tr (TWILIO_WORKSPACE_SID context) (validWorkerSid body) s
             = (Inr (Some worker), s1)"
    and "parseMaxMessageCapacity tr (attributes worker) = Inr (Some m)"
    and "m \<noteq> 0"
    and "listChannels tr worker s1 = (Inr channels, s2)"
    and "find (\<lambda>c. taskChannelUniqueName c = ''chat'') channels = Some channel"
  shows "adjustChatCapacity tr context body s
           = adjustChannel tr (validAdjustment body) channel m s2"
  using assms by (simp add: adjustChatCapacity_def)

lemma adjustChannel_returns:
  assumes upd: "updateSetsCapacity tr"
    and hi: "m \<le> 2 ^ 53"
    and lo: "- (2 ^ 53) \<le> configuredCapacity channel"
  shows "\<exists>out. adjustChannel tr adj channel m s = Some out"
proof (cases "adj = ''increaseUntilCapacityAvailable''")
  case True
  from increaseLoop_returns [OF upd hi lo]
  obtain out where "increaseLoop tr m \<lparr>status = 200, message = ''''\<rparr> channel s = Some out"
    by blast
  with True show ?thesis
    by (simp add: adjustChannel_def split: prod.split sum.split)
next
  case False
  then show ?thesis
    by (simp add: adjustChannel_def split: prod.split sum.split)
qed

lemma example_fetchWorker:
  "fetchWorker (exampleTaskrouter chat mx) (TWILIO_WORKSPACE_SID exampleContext)
      (validWorkerSid (exampleBody adj)) initialState
    = (Inr (Some \<lparr>attributes = ''{}''\<rparr>), \<lparr>world = 0, calls = [WorkerFetch ''WS1'' ''WK1'']\<rparr>)"
  by (simp add: fetchWorker_def exampleTaskrouter_def exampleContext_def exampleBody_def
      initialState_def)

lemma example_parse:
  "parseMaxMessageCapacity (exampleTaskrouter chat mx) (attributes \<lparr>attributes = ''{}''\<rparr>)
    = Inr mx"
  by (simp add: exampleTaskrouter_def)

lemma example_listChannels:
  "listChannels (exampleTaskrouter chat mx) \<lparr>attributes = ''{}''\<rparr>
      \<lparr>world = 0, calls = [WorkerFetch ''WS1'' ''WK1'']\<rparr>
    = (Inr [\<lparr>taskChannelUniqueName = ''voice'', configuredCapacity = 1,
             availableCapacityPercentage = 100\<rparr>, chat], fetchedState)"
  by (simp add: listChannels_def exampleTaskrouter_def fetchedState_def)

lemma example_find:
  "find (\<lambda>c. taskChannelUniqueName c = ''chat'')
     [\<lparr>taskChannelUniqueName = ''voice'', configuredCapacity = 1,
       availableCapacityPercentage = 100\<rparr>, chatChannel c a]
    = Some (chatChannel c a)"
  by (simp add: chatChannel_def)

lemma example_update:
  "workerChannel_update (exampleTaskrouter chat mx) w ch n
    = (Inr (ch\<lparr>configuredCapacity := n\<rparr>), Suc w)"
  by (simp add: exampleTaskrouter_def)

lemma example_updateSetsCapacity: "updateSetsCapacity (exampleTaskrouter chat mx)"
  by (simp add: updateSetsCapacity_def example_update)

subsection \<open>The capacity-increase loop\<close>

lemma stall_step:
  assumes "increaseLoop tr m res channel s = Some y"
  shows "\<not> (tr = exampleTaskrouter (chatChannel 9007199254740992 0) (Some 9007199254740994)
            \<and> m = 9007199254740994 \<and> status res = 200
            \<and> availableCapacityPercentage channel = 0
            \<and> configuredCapacity channel = 9007199254740992)"
proof (rule increaseLoop.raw_induct
    [where P = "\<lambda>tr m res channel s y.
       \<not> (tr = exampleTaskrouter (chatChannel 9007199254740992 0) (Some 9007199254740994)
            \<and> m = 9007199254740994 \<and> status res = 200
            \<and> availableCapacityPercentage channel = 0
            \<and> configuredCapacity channel = 9007199254740992)",
     OF _ assms], goal_cases)
  case (1 loop tr m res channel s y)
  show ?case
  proof
    assume a: "tr = exampleTaskrouter (chatChannel 9007199254740992 0) (Some 9007199254740994)
            \<and> m = 9007199254740994 \<and> status res = 200
            \<and> availableCapacityPercentage channel = 0
            \<and> configuredCapacity channel = 9007199254740992"
    then have "increaseChatCapacity tr channel m s =
        (Inr (\<lparr>status = 200, message = ''Successfully increased channel capacity''\<rparr>,
              channel\<lparr>configuredCapacity := 9007199254740992\<rparr>),
         \<lparr>world = Suc (world s),
          calls = calls s @ [WorkerChannelUpdate channel 9007199254740992]\<rparr>)"
      by (simp add: increaseChatCapacity_def updateChannel_def example_update jsAdd_2_53)
    with 1(2) a
    have "loop tr m \<lparr>status = 200, message = ''Successfully increased channel capacity''\<rparr>
            (channel\<lparr>configuredCapacity := 9007199254740992\<rparr>)
            \<lparr>world = Suc (world s),
             calls = calls s @ [WorkerChannelUpdate channel 9007199254740992]\<rparr>
          = Some y"
      by simp
    from 1(1) [OF this] a show False by simp
  qed
qed

lemma stall_loop:
  "increaseLoop (exampleTaskrouter (chatChannel 9007199254740992 0) (Some 9007199254740994))
     9007199254740994 \<lparr>status = 200, message = ''''\<rparr> (chatChannel 9007199254740992 0) s = None"
proof (cases "increaseLoop
     (exampleTaskrouter (chatChannel 9007199254740992 0) (Some 9007199254740994))
     9007199254740994 \<lparr>status = 200, message = ''''\<rparr> (chatChannel 9007199254740992 0) s")
  case None
  then show ?thesis .
next
  case (Some y)
  from stall_step [OF this] show ?thesis by (simp add: chatChannel_def)
qed

lemma stall_adjust:
  "adjustChatCapacity (exampleTaskrouter (chatChannel 9007199254740992 0) (Some 9007199254740994))
     exampleContext (exampleBody ''increaseUntilCapacityAvailable'') initialState = None"
proof -
  have m: "(9007199254740994::int) \<noteq> 0" by simp
  have "adjustChatCapacity
          (exampleTaskrouter (chatChannel 9007199254740992 0) (Some 9007199254740994))
          exampleContext (exampleBody ''increaseUntilCapacityAvailable'') initialState
        = adjustChannel
            (exampleTaskrouter (chatChannel 9007199254740992 0) (Some 9007199254740994))
            (validAdjustment (exampleBody ''increaseUntilCapacityAvailable''))
            (chatChannel 9007199254740992 0) 9007199254740994 fetchedState"
    by (rule adjustChatCapacity_reaches [OF example_fetchWorker example_parse m
          example_listChannels example_find])
  then show ?thesis
    by (simp add: exampleBody_def adjustChannel_def stall_loop)
qed

text \<open>
  Claim C1, as stated, fails. Numbers are doubles, and at \<open>2^53 = 9007199254740992\<close> the sum
  \<open>configuredCapacity + 1\<close> is \<open>configuredCapacity\<close> again. Take the example TaskRouter, whose
  \<open>update\<close> returns the channel with the capacity it was asked for (the precondition of the
  claim), a chat channel with capacity \<open>2^53\<close> and no available capacity, and
  \<open>maxMessageCapacity = 2^53 + 2\<close>. Every iteration asks for the capacity \<open>2^53\<close>, gets
  status 200 and the same channel back, and the loop never returns; neither does
  \<open>adjustChatCapacity\<close>.
\<close>

theorem increaseUntilCapacityAvailable_stalls:
  "updateSetsCapacity
     (exampleTaskrouter (chatChannel 9007199254740992 0) (Some 9007199254740994))
   \<and> jsAdd (configuredCapacity (chatChannel 9007199254740992 0)) 1
       = configuredCapacity (chatChannel 9007199254740992 0)
   \<and> increaseLoop (exampleTaskrouter (chatChannel 9007199254740992 0) (Some 9007199254740994))
       9007199254740994 \<lparr>status = 200, message = ''''\<rparr> (chatChannel 9007199254740992 0)
       fetchedState = None
   \<and> adjustChatCapacity
       (exampleTaskrouter (chatChannel 9007199254740992 0) (Some 9007199254740994))
       exampleContext (exampleBody ''increaseUntilCapacityAvailable'') initialState = None"
  by (simp add: example_updateSetsCapacity stall_loop stall_adjust)
     (simp add: chatChannel_def jsAdd_2_53)

text \<open>
  Claim C1, amended. Let \<open>channel.update({capacity: n})\<close>, whenever it returns, return a
  channel whose \<open>configuredCapacity\<close> is \<open>n\<close>, and let \<open>maxMessageCapacity \<le> 2^53\<close>. Then, for
  channels with \<open>configuredCapacity \<ge> -2^53\<close> (the range where adding 1 is exact), every call
  of \<open>increaseChatCapacity\<close> that returns either returns a status other than 200 or returns a
  channel whose capacity is strictly larger and at most \<open>maxMessageCapacity\<close>; the \<open>while\<close>
  loop of the \<open>increaseUntilCapacityAvailable\<close> branch returns from every result and state;
  and \<open>adjustChatCapacity\<close> returns whenever it finds that maximum and such a chat channel.
\<close>

theorem increaseUntilCapacityAvailable_terminates:
  assumes upd: "updateSetsCapacity tr"
    and hi: "m \<le> 2 ^ 53"
  shows "(\<forall>channel s res channel' s'.
            - (2 ^ 53) \<le> configuredCapacity channel
            \<and> increaseChatCapacity tr channel m s = (Inr (res, channel'), s')
            \<longrightarrow> status res \<noteq> 200
                \<or> (configuredCapacity channel < configuredCapacity channel'
                   \<and> configuredCapacity channel' \<le> m))
       \<and> (\<forall>res channel s.
            - (2 ^ 53) \<le> configuredCapacity channel
            \<longrightarrow> (\<exists>out. increaseLoop tr m res channel s = Some out))
       \<and> (\<forall>ctxt body s worker s1 channels s2 channel.
            fetchWorker tr (TWILIO_WORKSPACE_SID ctxt) (validWorkerSid body) s
              = (Inr (Some worker), s1)
            \<and> parseMaxMessageCapacity tr (attributes worker) = Inr (Some m) \<and> m \<noteq> 0
            \<and> listChannels tr worker s1 = (Inr channels, s2)
            \<and> find (\<lambda>c. taskChannelUniqueName c = ''chat'') channels = Some channel
            \<and> - (2 ^ 53) \<le> configuredCapacity channel
            \<longrightarrow> (\<exists>out. adjustChatCapacity tr ctxt body s = Some out))"
proof (intro conjI allI impI)
  fix channel s res channel' s'
  assume "- (2 ^ 53) \<le> configuredCapacity channel
            \<and> increaseChatCapacity tr channel m s = (Inr (res, channel'), s')"
  then have "status res \<noteq> 200
         \<or> (configuredCapacity channel' = configuredCapacity channel + 1
            \<and> configuredCapacity channel' \<le> m)"
    using increaseChatCapacity_step [OF upd _ hi] by blast
  then show "status res \<noteq> 200
        \<or> (configuredCapacity channel < configuredCapacity channel'
           \<and> configuredCapacity channel' \<le> m)"
    by auto
next
  fix res and channel :: WorkerChannelInstance and s
  assume "- (2 ^ 53) \<le> configuredCapacity channel"
  then show "\<exists>out. increaseLoop tr m res channel s = Some out"
    by (rule increaseLoop_returns [OF upd hi])
next
  fix ctxt :: AdjustEnvVars and body :: ValidBody and s worker s1 channels s2 channel
  assume a: "fetchWorker tr (TWILIO_WORKSPACE_SID ctxt) (validWorkerSid body) s
              = (Inr (Some worker), s1)
            \<and> parseMaxMessageCapacity tr (attributes worker) = Inr (Some m) \<and> m \<noteq> 0
            \<and> listChannels tr worker s1 = (Inr channels, s2)
            \<and> find (\<lambda>c. taskChannelUniqueName c = ''chat'') channels = Some channel
            \<and> - (2 ^ 53) \<le> configuredCapacity channel"
  then have f: "fetchWorker tr (TWILIO_WORKSPACE_SID ctxt) (validWorkerSid body) s
              = (Inr (Some worker), s1)"
    and p: "parseMaxMessageCapacity tr (attributes worker) = Inr (Some m)"
    and m: "m \<noteq> 0"
    and l: "listChannels tr worker s1 = (Inr channels, s2)"
    and c: "find (\<lambda>c. taskChannelUniqueName c = ''chat'') channels = Some channel"
    and lo: "- (2 ^ 53) \<le> configuredCapacity channel"
    by simp_all
  have "adjustChatCapacity tr ctxt body s
               = adjustChannel tr (validAdjustment body) channel m s2"
    by (rule adjustChatCapacity_reaches [OF f p m l c])
  moreover have "\<exists>out. adjustChannel tr (validAdjustment body) channel m s2 = Some out"
    by (rule adjustChannel_returns [OF upd hi lo])
  ultimately show "\<exists>out. adjustChatCapacity tr ctxt body s = Some out"
    by simp
qed

theorem increaseUntilCapacityAvailable_terminates_witness:
  "updateSetsCapacity (exampleTaskrouter (chatChannel 1 0) (Some 3))
   \<and> (\<exists>out. increaseLoop (exampleTaskrouter (chatChannel 1 0) (Some 3)) 3
               \<lparr>status = 200, message = ''''\<rparr> (chatChannel 1 0) fetchedState = Some out)
   \<and> (\<exists>out. adjustChatCapacity (exampleTaskrouter (chatChannel 1 0) (Some 3)) exampleContext
               (exampleBody ''increaseUntilCapacityAvailable'') initialState = Some out)"
proof -
  have hi: "(3::int) \<le> 2 ^ 53" by simp
  have lo: "- (2 ^ 53) \<le> configuredCapacity (chatChannel 1 0)"
    by (simp add: chatChannel_def)
  have m: "(3::int) \<noteq> 0" by simp
  note t = increaseUntilCapacityAvailable_terminates [OF example_updateSetsCapacity hi]
  from t lo
  have "\<exists>out. increaseLoop (exampleTaskrouter (chatChannel 1 0) (Some 3)) 3
               \<lparr>status = 200, message = ''''\<rparr> (chatChannel 1 0) fetchedState = Some out"
    by blast
  moreover
  have "\<exists>out. adjustChatCapacity (exampleTaskrouter (chatChannel 1 0) (Some 3)) exampleContext
               (exampleBody ''increaseUntilCapacityAvailable'') initialState = Some out"
  proof (rule t [THEN conjunct2, THEN conjunct2, rule_format])
    show "fetchWorker (exampleTaskrouter (chatChannel 1 0) (Some 3))
            (TWILIO_WORKSPACE_SID exampleContext)
            (validWorkerSid (exampleBody ''increaseUntilCapacityAvailable'')) initialState
          = (Inr (Some \<lparr>attributes = ''{}''\<rparr>),
             \<lparr>world = 0, calls = [WorkerFetch ''WS1'' ''WK1'']\<rparr>)
        \<and> parseMaxMessageCapacity (exampleTaskrouter (chatChannel 1 0) (Some 3))
            (attributes \<lparr>attributes = ''{}''\<rparr>) = Inr (Some 3)
        \<and> (3::int) \<noteq> 0
        \<and> listChannels (exampleTaskrouter (chatChannel 1 0) (Some 3)) \<lparr>attributes = ''{}''\<rparr>
            \<lparr>world = 0, calls = [WorkerFetch ''WS1'' ''WK1'']\<rparr>
          = (Inr [\<lparr>taskChannelUniqueName = ''voice'', configuredCapacity = 1,
                   availableCapacityPercentage = 100\<rparr>, chatChannel 1 0], fetchedState)
        \<and> find (\<lambda>c. taskChannelUniqueName c = ''chat'')
            [\<lparr>taskChannelUniqueName = ''voice'', configuredCapacity = 1,
              availableCapacityPercentage = 100\<rparr>, chatChannel 1 0]
          = Some (chatChannel 1 0)
        \<and> - (2 ^ 53) \<le> configuredCapacity (chatChannel 1 0)"
      using example_fetchWorker example_parse m example_listChannels example_find lo
      by (intro conjI)
  qed
  ultimately show ?thesis
    using example_updateSetsCapacity by blast
qed

text \<open>A run of the loop on the example services: two updates take the capacity from 1 to
  the maximum 3, where the loop stops with no capacity available.\<close>

lemma example_loop_run:
  "adjustChatCapacity (exampleTaskrouter (chatChannel 1 0) (Some 3)) exampleContext
       (exampleBody ''increaseUntilCapacityAvailable'') initialState
     = Some (Inr \<lparr>status = 412,
              message = ''Reached the max capacity with no available capacity.''\<rparr>,
             \<lparr>world = 2,
              calls = calls fetchedState @
                [WorkerChannelUpdate (chatChannel 1 0) 2,
                 WorkerChannelUpdate (chatChannel 2 0) 3]\<rparr>)"
proof -
  have m: "(3::int) \<noteq> 0" by simp
  have "adjustChatCapacity (exampleTaskrouter (chatChannel 1 0) (Some 3)) exampleContext
          (exampleBody ''increaseUntilCapacityAvailable'') initialState
        = adjustChannel (exampleTaskrouter (chatChannel 1 0) (Some 3))
            (validAdjustment (exampleBody ''increaseUntilCapacityAvailable''))
            (chatChannel 1 0) 3 fetchedState"
    by (rule adjustChatCapacity_reaches [OF example_fetchWorker example_parse m
          example_listChannels example_find])
  then show ?thesis
    by (simp add: exampleBody_def adjustChannel_def increaseLoop.simps increaseChatCapacity_def
        updateChannel_eq example_update chatChannel_def fetchedState_def jsAdd_exact)
qed

text \<open>The precondition on \<open>update\<close> is needed as well. With a TaskRouter that answers every
  update with the unchanged channel, the loop never returns, whatever the capacities are:
  every result it could return is excluded by induction over its unfolding.\<close>

lemma stuck_loop_step:
  assumes "increaseLoop tr m res channel s = Some y"
  shows "\<not> (tr = stuckTaskrouter \<and> status res = 200
            \<and> availableCapacityPercentage channel \<le> 0 \<and> configuredCapacity channel < m)"
proof (rule increaseLoop.raw_induct
    [where P = "\<lambda>tr m res channel s y. \<not> (tr = stuckTaskrouter \<and> status res = 200
            \<and> availableCapacityPercentage channel \<le> 0 \<and> configuredCapacity channel < m)",
     OF _ assms], goal_cases)
  case (1 loop tr m res channel s y)
  show ?case
  proof
    assume a: "tr = stuckTaskrouter \<and> status res = 200
            \<and> availableCapacityPercentage channel \<le> 0 \<and> configuredCapacity channel < m"
    then have "increaseChatCapacity tr channel m s =
        (Inr (\<lparr>status = 200, message = ''Successfully increased channel capacity''\<rparr>, channel),
         \<lparr>world = world s,
          calls = calls s @ [WorkerChannelUpdate channel (jsAdd (configuredCapacity channel) 1)]\<rparr>)"
      by (simp add: increaseChatCapacity_def updateChannel_def stuckTaskrouter_def)
    with 1(2) a
    have "loop tr m \<lparr>status = 200, message = ''Successfully increased channel capacity''\<rparr>
            channel \<lparr>world = world s,
              calls = calls s @ [WorkerChannelUpdate channel (jsAdd (configuredCapacity channel) 1)]\<rparr>
          = Some y"
      by simp
    from 1(1) [OF this] a show False by simp
  qed
qed

lemma stuck_loop_never_returns:
  "increaseLoop stuckTaskrouter 3 \<lparr>status = 200, message = ''''\<rparr> (chatChannel 1 0) s = None"
proof (cases "increaseLoop stuckTaskrouter 3 \<lparr>status = 200, message = ''''\<rparr> (chatChannel 1 0) s")
  case None
  then show ?thesis .
next
  case (Some y)
  from stuck_loop_step [OF this] show ?thesis by (simp add: chatChannel_def)
qed

lemma stuck_adjust_never_returns:
  "adjustChatCapacity stuckTaskrouter exampleContext
     (exampleBody ''increaseUntilCapacityAvailable'') initialState = None"
proof -
  have "adjustChatCapacity stuckTaskrouter exampleContext
          (exampleBody ''increaseUntilCapacityAvailable'') initialState
        = adjustChannel stuckTaskrouter
            (validAdjustment (exampleBody ''increaseUntilCapacityAvailable''))
            (chatChannel 1 0) 3 fetchedState"
  proof (rule adjustChatCapacity_reaches)
    show "fetchWorker stuckTaskrouter (TWILIO_WORKSPACE_SID exampleContext)
            (validWorkerSid (exampleBody ''increaseUntilCapacityAvailable'')) initialState
          = (Inr (Some \<lparr>attributes = ''{}''\<rparr>),
             \<lparr>world = 0, calls = [WorkerFetch ''WS1'' ''WK1'']\<rparr>)"
      by (simp add: fetchWorker_def stuckTaskrouter_def exampleContext_def exampleBody_def
          initialState_def)
    show "parseMaxMessageCapacity stuckTaskrouter (attributes \<lparr>attributes = ''{}''\<rparr>)
          = Inr (Some 3)"
      by (simp add: stuckTaskrouter_def)
    show "(3::int) \<noteq> 0" by simp
    show "listChannels stuckTaskrouter \<lparr>attributes = ''{}''\<rparr>
            \<lparr>world = 0, calls = [WorkerFetch ''WS1'' ''WK1'']\<rparr>
          = (Inr [chatChannel 1 0], fetchedState)"
      by (simp add: listChannels_def stuckTaskrouter_def fetchedState_def)
    show "find (\<lambda>c. taskChannelUniqueName c = ''chat'') [chatChannel 1 0]
          = Some (chatChannel 1 0)"
      by (simp add: chatChannel_def)
  qed
  then show ?thesis
    by (simp add: exampleBody_def adjustChannel_def stuck_loop_never_returns)
qed

subsection \<open>The single adjustments\<close>

text \<open>
  Claim C2. Once the worker, its \<open>maxMessageCapacity\<close> and its chat channel are found,
  \<open>adjustChatCapacity\<close> with the adjustment \<open>increase\<close>
  returns status 412 with the message "Still have available capacity, no need to increase."
  and makes no further call when \<open>availableCapacityPercentage > 0\<close>;
  returns status 412 with the message "Reached the max capacity." and makes no further call
  when \<open>availableCapacityPercentage \<le> 0\<close> and \<open>configuredCapacity \<ge> maxMessageCapacity\<close>;
  and otherwise requests exactly one update of the channel, to \<open>configuredCapacity + 1\<close>, and
  returns status 200 when that request returns (its exception otherwise). The sum is the sum
  of doubles, \<open>jsAdd\<close>, which is the exact sum up to \<open>2^53\<close> (lemma \<open>jsAdd_exact\<close>).
\<close>

theorem adjustChatCapacity_increase:
  assumes "validAdjustment body = ''increase''"
    and "fetchWorker tr (TWILIO_WORKSPACE_SID context) (validWorkerSid body) s
           = (Inr (Some worker), s1)"
    and "parseMaxMessageCapacity tr (attributes worker) = Inr (Some m)"
    and "m \<noteq> 0"
    and "listChannels tr worker s1 = (Inr channels, s2)"
    and "find (\<lambda>c. taskChannelUniqueName c = ''chat'') channels = Some channel"
  shows "(0 < availableCapacityPercentage channel \<longrightarrow>
            adjustChatCapacity tr context body s =
              Some (Inr \<lparr>status = 412,
                     message = ''Still have available capacity, no need to increase.''\<rparr>, s2))
       \<and> (availableCapacityPercentage channel \<le> 0 \<and> m \<le> configuredCapacity channel \<longrightarrow>
            adjustChatCapacity tr context body s =
              Some (Inr \<lparr>status = 412, message = ''Reached the max capacity.''\<rparr>, s2))
       \<and> (availableCapacityPercentage channel \<le> 0 \<and> configuredCapacity channel < m \<longrightarrow>
            adjustChatCapacity tr context body s =
              Some (case fst (workerChannel_update tr (world s2) channel
                               (jsAdd (configuredCapacity channel) 1)) of
                      Inl e \<Rightarrow> Inl e
                    | Inr updatedChannel \<Rightarrow>
                        Inr \<lparr>status = 200,
                            message = ''Successfully increased channel capacity''\<rparr>,
                    \<lparr>world = snd (workerChannel_update tr (world s2) channel
                                    (jsAdd (configuredCapacity channel) 1)),
                     calls = calls s2 @
                       [WorkerChannelUpdate channel (jsAdd (configuredCapacity channel) 1)]\<rparr>))"
proof -
  have reach: "adjustChatCapacity tr context body s = adjustChannel tr ''increase'' channel m s2"
    using adjustChatCapacity_reaches [OF assms(2-6)] assms(1) by simp
  show ?thesis
    unfolding reach
    by (simp add: adjustChannel_def increaseChatCapacity_def updateChannel_eq split: sum.split)
qed

theorem adjustChatCapacity_increase_witness:
  "adjustChatCapacity (exampleTaskrouter (chatChannel 1 50) (Some 3)) exampleContext
       (exampleBody ''increase'') initialState
     = Some (Inr \<lparr>status = 412,
              message = ''Still have available capacity, no need to increase.''\<rparr>, fetchedState)
   \<and> adjustChatCapacity (exampleTaskrouter (chatChannel 3 0) (Some 3)) exampleContext
       (exampleBody ''increase'') initialState
     = Some (Inr \<lparr>status = 412, message = ''Reached the max capacity.''\<rparr>, fetchedState)
   \<and> adjustChatCapacity (exampleTaskrouter (chatChannel 1 0) (Some 3)) exampleContext
       (exampleBody ''increase'') initialState
     = Some (Inr \<lparr>status = 200, message = ''Successfully increased channel capacity''\<rparr>,
             \<lparr>world = 1,
              calls = calls fetchedState @ [WorkerChannelUpdate (chatChannel 1 0) 2]\<rparr>)"
proof -
  have adj: "validAdjustment (exampleBody ''increase'') = ''increase''"
    by (simp add: exampleBody_def)
  have m: "(3::int) \<noteq> 0" by simp
  note run = adjustChatCapacity_increase [OF adj example_fetchWorker example_parse m
      example_listChannels example_find]
  have a: "0 < availableCapacityPercentage (chatChannel 1 50)"
    by (simp add: chatChannel_def)
  have b: "availableCapacityPercentage (chatChannel 3 0) \<le> 0
           \<and> 3 \<le> configuredCapacity (chatChannel 3 0)"
    by (simp add: chatChannel_def)
  have c: "availableCapacityPercentage (chatChannel 1 0) \<le> 0
           \<and> configuredCapacity (chatChannel 1 0) < 3"
    by (simp add: chatChannel_def)
  have c': "jsAdd (configuredCapacity (chatChannel 1 0)) 1 = 2" "world fetchedState = 0"
    by (simp_all add: chatChannel_def fetchedState_def jsAdd_exact jsSub_exact)
  from run [of 1 50] a
  have "adjustChatCapacity (exampleTaskrouter (chatChannel 1 50) (Some 3)) exampleContext
       (exampleBody ''increase'') initialState
     = Some (Inr \<lparr>status = 412,
              message = ''Still have available capacity, no need to increase.''\<rparr>, fetchedState)"
    by blast
  moreover from run [of 3 0] b
  have "adjustChatCapacity (exampleTaskrouter (chatChannel 3 0) (Some 3)) exampleContext
       (exampleBody ''increase'') initialState
     = Some (Inr \<lparr>status = 412, message = ''Reached the max capacity.''\<rparr>, fetchedState)"
    by blast
  moreover from run [of 1 0] c
  have "adjustChatCapacity (exampleTaskrouter (chatChannel 1 0) (Some 3)) exampleContext
       (exampleBody ''increase'') initialState
     = Some (Inr \<lparr>status = 200, message = ''Successfully increased channel capacity''\<rparr>,
             \<lparr>world = 1,
              calls = calls fetchedState @ [WorkerChannelUpdate (chatChannel 1 0) 2]\<rparr>)"
    by (simp add: c' example_update)
  ultimately show ?thesis by blast
qed

text \<open>
  Claim C5. Once the chat channel is found with \<open>configuredCapacity = c\<close>,
  \<open>adjustChatCapacity\<close> with the adjustment \<open>setTo1\<close> and \<open>c \<noteq> 1\<close> requests exactly one
  update, to \<open>c - 1\<close> (one decrement, whatever \<open>c\<close> is), and returns status 200 with the
  message "Successfully reset channel capacity to 1" when that request returns; with \<open>c = 1\<close>
  it makes no further call and returns status 200 with the message
  "Channel capacity already 1, no adjustment made.". The difference is the difference of
  doubles, \<open>jsSub\<close>, which is exact up to \<open>2^53\<close> (lemma \<open>jsSub_exact\<close>).
\<close>

theorem adjustChatCapacity_setTo1:
  assumes "validAdjustment body = ''setTo1''"
    and "fetchWorker tr (TWILIO_WORKSPACE_SID context) (validWorkerSid body) s
           = (Inr (Some worker), s1)"
    and "parseMaxMessageCapacity tr (attributes worker) = Inr (Some m)"
    and "m \<noteq> 0"
    and "listChannels tr worker s1 = (Inr channels, s2)"
    and "find (\<lambda>c. taskChannelUniqueName c = ''chat'') channels = Some channel"
  shows "(configuredCapacity channel \<noteq> 1 \<longrightarrow>
            adjustChatCapacity tr context body s =
              Some (case fst (workerChannel_update tr (world s2) channel
                               (jsSub (configuredCapacity channel) 1)) of
                      Inl e \<Rightarrow> Inl e
                    | Inr updatedChannel \<Rightarrow>
                        Inr \<lparr>status = 200,
                            message = ''Successfully reset channel capacity to 1''\<rparr>,
                    \<lparr>world = snd (workerChannel_update tr (world s2) channel
                                    (jsSub (configuredCapacity channel) 1)),
                     calls = calls s2 @
                       [WorkerChannelUpdate channel (jsSub (configuredCapacity channel) 1)]\<rparr>))
       \<and> (configuredCapacity channel = 1 \<longrightarrow>
            adjustChatCapacity tr context body s =
              Some (Inr \<lparr>status = 200,
                     message = ''Channel capacity already 1, no adjustment made.''\<rparr>, s2))"
proof -
  have reach: "adjustChatCapacity tr context body s = adjustChannel tr ''setTo1'' channel m s2"
    using adjustChatCapacity_reaches [OF assms(2-6)] assms(1) by simp
  show ?thesis
    unfolding reach
    by (simp add: adjustChannel_def updateChannel_eq split: sum.split)
qed

theorem adjustChatCapacity_setTo1_witness:
  "adjustChatCapacity (exampleTaskrouter (chatChannel 5 0) (Some 3)) exampleContext
       (exampleBody ''setTo1'') initialState
     = Some (Inr \<lparr>status = 200, message = ''Successfully reset channel capacity to 1''\<rparr>,
             \<lparr>world = 1,
              calls = calls fetchedState @ [WorkerChannelUpdate (chatChannel 5 0) 4]\<rparr>)
   \<and> adjustChatCapacity (exampleTaskrouter (chatChannel 1 0) (Some 3)) exampleContext
       (exampleBody ''setTo1'') initialState
     = Some (Inr \<lparr>status = 200,
              message = ''Channel capacity already 1, no adjustment made.''\<rparr>, fetchedState)"
proof -
  have adj: "validAdjustment (exampleBody ''setTo1'') = ''setTo1''"
    by (simp add: exampleBody_def)
  have m: "(3::int) \<noteq> 0" by simp
  note run = adjustChatCapacity_setTo1 [OF adj example_fetchWorker example_parse m
      example_listChannels example_find]
  have c: "configuredCapacity (chatChannel 5 0) \<noteq> 1"
    "jsSub (configuredCapacity (chatChannel 5 0)) 1 = 4" "world fetchedState = 0"
    "configuredCapacity (chatChannel 1 0) = 1"
    by (simp_all add: chatChannel_def fetchedState_def jsAdd_exact jsSub_exact)
  from run [of 5 0] c(1)
  have "adjustChatCapacity (exampleTaskrouter (chatChannel 5 0) (Some 3)) exampleContext
       (exampleBody ''setTo1'') initialState
     = Some (Inr \<lparr>status = 200, message = ''Successfully reset channel capacity to 1''\<rparr>,
             \<lparr>world = 1,
              calls = calls fetchedState @ [WorkerChannelUpdate (chatChannel 5 0) 4]\<rparr>)"
    by (simp add: c example_update)
  moreover from run [of 1 0] c(4)
  have "adjustChatCapacity (exampleTaskrouter (chatChannel 1 0) (Some 3)) exampleContext
       (exampleBody ''setTo1'') initialState
     = Some (Inr \<lparr>status = 200,
              message = ''Channel capacity already 1, no adjustment made.''\<rparr>, fetchedState)"
    by blast
  ultimately show ?thesis by blast
qed

text \<open>
  Claim C9. Once the chat channel is found with \<open>configuredCapacity = c\<close>,
  \<open>adjustChatCapacity\<close> with the adjustment \<open>decrease\<close> requests an update, to \<open>c - 1\<close>,
  exactly when \<open>c - 1 \<ge> 1\<close>, and makes no further call otherwise; in both cases it returns
  status 200 with the message "Successfully decreased channel capacity" (when the request,
  if any, returns). So every capacity that this branch asks for is at least 1. The
  difference is the difference of doubles, \<open>jsSub\<close>, in the test and in the request alike.
\<close>

theorem adjustChatCapacity_decrease:
  assumes "validAdjustment body = ''decrease''"
    and "fetchWorker tr (TWILIO_WORKSPACE_SID context) (validWorkerSid body) s
           = (Inr (Some worker), s1)"
    and "parseMaxMessageCapacity tr (attributes worker) = Inr (Some m)"
    and "m \<noteq> 0"
    and "listChannels tr worker s1 = (Inr channels, s2)"
    and "find (\<lambda>c. taskChannelUniqueName c = ''chat'') channels = Some channel"
  shows "(1 \<le> jsSub (configuredCapacity channel) 1 \<longrightarrow>
            adjustChatCapacity tr context body s =
              Some (case fst (workerChannel_update tr (world s2) channel
                               (jsSub (configuredCapacity channel) 1)) of
                      Inl e \<Rightarrow> Inl e
                    | Inr updatedChannel \<Rightarrow>
                        Inr \<lparr>status = 200,
                            message = ''Successfully decreased channel capacity''\<rparr>,
                    \<lparr>world = snd (workerChannel_update tr (world s2) channel
                                    (jsSub (configuredCapacity channel) 1)),
                     calls = calls s2 @
                       [WorkerChannelUpdate channel (jsSub (configuredCapacity channel) 1)]\<rparr>))
       \<and> (\<not> 1 \<le> jsSub (configuredCapacity channel) 1 \<longrightarrow>
            adjustChatCapacity tr context body s =
              Some (Inr \<lparr>status = 200,
                     message = ''Successfully decreased channel capacity''\<rparr>, s2))
       \<and> (\<exists>out s' extra.
            adjustChatCapacity tr context body s = Some (out, s')
            \<and> calls s' = calls s2 @ extra
            \<and> (\<forall>ch capacity. WorkerChannelUpdate ch capacity \<in> set extra \<longrightarrow> 1 \<le> capacity))"
proof -
  have reach: "adjustChatCapacity tr context body s = adjustChannel tr ''decrease'' channel m s2"
    using adjustChatCapacity_reaches [OF assms(2-6)] assms(1) by simp
  have "1 \<le> jsSub (configuredCapacity channel) 1 \<longrightarrow>
          adjustChannel tr ''decrease'' channel m s2 =
              Some (case fst (workerChannel_update tr (world s2) channel
                               (jsSub (configuredCapacity channel) 1)) of
                      Inl e \<Rightarrow> Inl e
                    | Inr updatedChannel \<Rightarrow>
                        Inr \<lparr>status = 200,
                            message = ''Successfully decreased channel capacity''\<rparr>,
                    \<lparr>world = snd (workerChannel_update tr (world s2) channel
                                    (jsSub (configuredCapacity channel) 1)),
                     calls = calls s2 @
                       [WorkerChannelUpdate channel (jsSub (configuredCapacity channel) 1)]\<rparr>)"
    by (simp add: adjustChannel_def updateChannel_eq split: sum.split)
  moreover have "\<not> 1 \<le> jsSub (configuredCapacity channel) 1 \<longrightarrow>
          adjustChannel tr ''decrease'' channel m s2 =
              Some (Inr \<lparr>status = 200,
                     message = ''Successfully decreased channel capacity''\<rparr>, s2)"
    by (simp add: adjustChannel_def)
  moreover have "\<exists>out s' extra.
            adjustChannel tr ''decrease'' channel m s2 = Some (out, s')
            \<and> calls s' = calls s2 @ extra
            \<and> (\<forall>ch capacity. WorkerChannelUpdate ch capacity \<in> set extra \<longrightarrow> 1 \<le> capacity)"
  proof (cases "1 \<le> jsSub (configuredCapacity channel) 1")
    case True
    with calculation(1) show ?thesis by auto
  next
    case False
    with calculation(2) show ?thesis by auto
  qed
  ultimately show ?thesis unfolding reach by blast
qed

theorem adjustChatCapacity_decrease_witness:
  "adjustChatCapacity (exampleTaskrouter (chatChannel 2 0) (Some 3)) exampleContext
       (exampleBody ''decrease'') initialState
     = Some (Inr \<lparr>status = 200, message = ''Successfully decreased channel capacity''\<rparr>,
             \<lparr>world = 1,
              calls = calls fetchedState @ [WorkerChannelUpdate (chatChannel 2 0) 1]\<rparr>)
   \<and> adjustChatCapacity (exampleTaskrouter (chatChannel 1 0) (Some 3)) exampleContext
       (exampleBody ''decrease'') initialState
     = Some (Inr \<lparr>status = 200, message = ''Successfully decreased channel capacity''\<rparr>,
             fetchedState)"
proof -
  have adj: "validAdjustment (exampleBody ''decrease'') = ''decrease''"
    by (simp add: exampleBody_def)
  have m: "(3::int) \<noteq> 0" by simp
  note run = adjustChatCapacity_decrease [OF adj example_fetchWorker example_parse m
      example_listChannels example_find]
  have c: "1 \<le> jsSub (configuredCapacity (chatChannel 2 0)) 1"
    "jsSub (configuredCapacity (chatChannel 2 0)) 1 = 1" "world fetchedState = 0"
    "\<not> 1 \<le> jsSub (configuredCapacity (chatChannel 1 0)) 1"
    by (simp_all add: chatChannel_def fetchedState_def jsAdd_exact jsSub_exact)
  from run [of 2 0] c(1)
  have "adjustChatCapacity (exampleTaskrouter (chatChannel 2 0) (Some 3)) exampleContext
       (exampleBody ''decrease'') initialState
     = Some (Inr \<lparr>status = 200, message = ''Successfully decreased channel capacity''\<rparr>,
             \<lparr>world = 1,
              calls = calls fetchedState @ [WorkerChannelUpdate (chatChannel 2 0) 1]\<rparr>)"
    by (simp add: c example_update)
  moreover from run [of 1 0] c(4)
  have "adjustChatCapacity (exampleTaskrouter (chatChannel 1 0) (Some 3)) exampleContext
       (exampleBody ''decrease'') initialState
     = Some (Inr \<lparr>status = 200, message = ''Successfully decreased channel capacity''\<rparr>,
             fetchedState)"
    by blast
  ultimately show ?thesis by blast
qed

subsection \<open>Validation in the handler\<close>

lemma example_invalid_adjustment:
  "adjustChatCapacity (exampleTaskrouter (chatChannel 1 0) (Some 3)) exampleContext
       \<lparr>validWorkerSid = ''WK1'', validAdjustment = ''reset''\<rparr> \<lparr>world = 0, calls = cs\<rparr>
     = Some (Inr \<lparr>status = 400, message = ''Invalid adjustment argument''\<rparr>,
             \<lparr>world = 0,
              calls = cs @ [WorkerFetch ''WS1'' ''WK1'',
                            WorkerChannelsList \<lparr>attributes = ''{}''\<rparr>]\<rparr>)"
  by (simp add: adjustChatCapacity_def fetchWorker_def listChannels_def exampleTaskrouter_def
      exampleContext_def chatChannel_def adjustChannel_def)

lemma example_validate:
  "validateEventToken (exampleTaskrouter chat mx) token initialState
     = (if token = Some ''good'' then Inr () else Inl ''Unauthorized'',
        \<lparr>world = 0, calls = [TokenValidation token]\<rparr>)"
  by (simp add: validateEventToken_def exampleTaskrouter_def initialState_def)

text \<open>
  Claim C8, as stated, fails: it speaks of every request event, but the exported handler is
  the function of the claim inside \<open>TokenValidator\<close>. An event without \<open>workerSid\<close> and
  without a token that the validator accepts is answered with status 403 by the validator,
  not with \<open>error400('workerSid')\<close>.
\<close>

theorem adjustChatCapacity_handler_rejects_first:
  "adjustChatCapacity_handler (exampleTaskrouter (chatChannel 1 0) (Some 3)) exampleContext
       \<lparr>workerSid = None, adjustment = Some ''increase'', eventToken = None\<rparr> initialState
     = Some (error403 ''Unauthorized'', \<lparr>world = 0, calls = [TokenValidation None]\<rparr>)"
  by (simp add: adjustChatCapacity_handler_def example_validate)

text \<open>
  Claim C8, amended. A request that the token validator rejects is answered with status
  403 and nothing else happens. For every request event that the validator accepts, the
  handler resolves \<open>error400('workerSid')\<close> when \<open>event.workerSid\<close> is undefined, and otherwise
  \<open>error400('adjustment')\<close> when \<open>event.adjustment\<close> is undefined, in both cases without any
  call to TaskRouter (the state is the one the validation left). With both fields present it
  runs \<open>adjustChatCapacity\<close> on them and resolves \<open>send(status)({message, status})\<close> of the
  pair it returns (\<open>error500\<close> of the exception when it throws). So a run with any call
  beyond the validation of the token had both fields.
\<close>

theorem adjustChatCapacity_handler_validates:
  "(\<forall>rejection w1.
      tokenValidator tr (world s) (eventToken event) = (Inl rejection, w1) \<longrightarrow>
      adjustChatCapacity_handler tr context event s =
        Some (error403 rejection,
              \<lparr>world = w1, calls = calls s @ [TokenValidation (eventToken event)]\<rparr>))
   \<and> (\<forall>w1 s1.
      tokenValidator tr (world s) (eventToken event) = (Inr (), w1)
      \<and> s1 = \<lparr>world = w1, calls = calls s @ [TokenValidation (eventToken event)]\<rparr> \<longrightarrow>
      (workerSid event = None \<longrightarrow>
         adjustChatCapacity_handler tr context event s = Some (error400 ''workerSid'', s1))
      \<and> (workerSid event \<noteq> None \<and> adjustment event = None \<longrightarrow>
         adjustChatCapacity_handler tr context event s = Some (error400 ''adjustment'', s1))
      \<and> (\<forall>wSid adj. workerSid event = Some wSid \<and> adjustment event = Some adj \<longrightarrow>
         adjustChatCapacity_handler tr context event s =
           (case adjustChatCapacity tr context
                   \<lparr>validWorkerSid = wSid, validAdjustment = adj\<rparr> s1 of
              None \<Rightarrow> None
            | Some (Inl err, s') \<Rightarrow> Some (error500 err, s')
            | Some (Inr res, s') \<Rightarrow> Some (send (status res) res, s'))))
   \<and> (\<forall>r s' c.
      adjustChatCapacity_handler tr context event s = Some (r, s')
      \<and> c \<in> set (drop (length (calls s)) (calls s'))
      \<and> c \<noteq> TokenValidation (eventToken event) \<longrightarrow>
      workerSid event \<noteq> None \<and> adjustment event \<noteq> None)"
proof -
  obtain v w1 where v: "tokenValidator tr (world s) (eventToken event) = (v, w1)"
    by (cases "tokenValidator tr (world s) (eventToken event)")
  show ?thesis
  proof (cases v)
    case (Inl rejection)
    with v show ?thesis
      by (auto simp: adjustChatCapacity_handler_def validateEventToken_def)
  next
    case (Inr u)
    with v show ?thesis
      by (auto simp: adjustChatCapacity_handler_def validateEventToken_def handlerFn_def
          split: option.splits sum.splits prod.splits)
  qed
qed

theorem adjustChatCapacity_handler_validates_witness:
  "adjustChatCapacity_handler (exampleTaskrouter (chatChannel 1 0) (Some 3)) exampleContext
       \<lparr>workerSid = None, adjustment = Some ''increase'', eventToken = Some ''good''\<rparr>
       initialState
     = Some (error400 ''workerSid'',
             \<lparr>world = 0, calls = [TokenValidation (Some ''good'')]\<rparr>)
   \<and> adjustChatCapacity_handler (exampleTaskrouter (chatChannel 1 0) (Some 3)) exampleContext
       \<lparr>workerSid = Some ''WK1'', adjustment = None, eventToken = Some ''good''\<rparr> initialState
     = Some (error400 ''adjustment'',
             \<lparr>world = 0, calls = [TokenValidation (Some ''good'')]\<rparr>)
   \<and> adjustChatCapacity_handler (exampleTaskrouter (chatChannel 1 0) (Some 3)) exampleContext
       \<lparr>workerSid = Some ''WK1'', adjustment = Some ''reset'', eventToken = Some ''good''\<rparr>
       initialState
     = Some (send 400 \<lparr>status = 400, message = ''Invalid adjustment argument''\<rparr>,
             \<lparr>world = 0,
              calls = [TokenValidation (Some ''good''), WorkerFetch ''WS1'' ''WK1'',
                       WorkerChannelsList \<lparr>attributes = ''{}''\<rparr>]\<rparr>)
   \<and> adjustChatCapacity_handler (exampleTaskrouter (chatChannel 1 0) (Some 3)) exampleContext
       \<lparr>workerSid = Some ''WK1'', adjustment = Some ''reset'', eventToken = Some ''bad''\<rparr>
       initialState
     = Some (error403 ''Unauthorized'',
             \<lparr>world = 0, calls = [TokenValidation (Some ''bad'')]\<rparr>)"
proof -
  have v: "tokenValidator (exampleTaskrouter (chatChannel 1 0) (Some 3)) (world initialState)
             token = (if token = Some ''good'' then Inr () else Inl ''Unauthorized'', 0)"
    for token
    by (simp add: exampleTaskrouter_def initialState_def)
  have c: "calls (initialState :: nat tr_state) = []"
    by (simp add: initialState_def)
  note h = adjustChatCapacity_handler_validates
    [where tr = "exampleTaskrouter (chatChannel 1 0) (Some 3)" and s = initialState]
  note accepted = h [THEN conjunct2, THEN conjunct1, rule_format]
  note rejected = h [THEN conjunct1, rule_format]
  have "adjustChatCapacity_handler (exampleTaskrouter (chatChannel 1 0) (Some 3)) exampleContext
       \<lparr>workerSid = None, adjustment = Some ''increase'', eventToken = Some ''good''\<rparr>
       initialState
     = Some (error400 ''workerSid'',
             \<lparr>world = 0, calls = [TokenValidation (Some ''good'')]\<rparr>)"
    by (rule accepted [THEN conjunct1, rule_format]) (simp_all add: v c)
  moreover
  have "adjustChatCapacity_handler (exampleTaskrouter (chatChannel 1 0) (Some 3)) exampleContext
       \<lparr>workerSid = Some ''WK1'', adjustment = None, eventToken = Some ''good''\<rparr> initialState
     = Some (error400 ''adjustment'',
             \<lparr>world = 0, calls = [TokenValidation (Some ''good'')]\<rparr>)"
    by (rule accepted [THEN conjunct2, THEN conjunct1, rule_format]) (simp_all add: v c)
  moreover
  have "adjustChatCapacity_handler (exampleTaskrouter (chatChannel 1 0) (Some 3)) exampleContext
       \<lparr>workerSid = Some ''WK1'', adjustment = Some ''reset'', eventToken = Some ''good''\<rparr>
       initialState
     = (case adjustChatCapacity (exampleTaskrouter (chatChannel 1 0) (Some 3)) exampleContext
               \<lparr>validWorkerSid = ''WK1'', validAdjustment = ''reset''\<rparr>
               \<lparr>world = 0, calls = [TokenValidation (Some ''good'')]\<rparr> of
          None \<Rightarrow> None
        | Some (Inl err, s') \<Rightarrow> Some (error500 err, s')
        | Some (Inr res, s') \<Rightarrow> Some (send (status res) res, s'))"
    by (rule accepted [THEN conjunct2, THEN conjunct2, rule_format]) (simp_all add: v c)
  then have "adjustChatCapacity_handler (exampleTaskrouter (chatChannel 1 0) (Some 3))
       exampleContext
       \<lparr>workerSid = Some ''WK1'', adjustment = Some ''reset'', eventToken = Some ''good''\<rparr>
       initialState
     = Some (send 400 \<lparr>status = 400, message = ''Invalid adjustment argument''\<rparr>,
             \<lparr>world = 0,
              calls = [TokenValidation (Some ''good''), WorkerFetch ''WS1'' ''WK1'',
                       WorkerChannelsList \<lparr>attributes = ''{}''\<rparr>]\<rparr>)"
    by (simp add: example_invalid_adjustment)
  moreover
  have "adjustChatCapacity_handler (exampleTaskrouter (chatChannel 1 0) (Some 3)) exampleContext
       \<lparr>workerSid = Some ''WK1'', adjustment = Some ''reset'', eventToken = Some ''bad''\<rparr>
       initialState
     = Some (error403 ''Unauthorized'',
             \<lparr>world = 0, calls = [TokenValidation (Some ''bad'')]\<rparr>)"
    using rejected [of "\<lparr>workerSid = Some ''WK1'', adjustment = Some ''reset'',
      eventToken = Some ''bad''\<rparr>" "''Unauthorized''" 0 exampleContext]
    by (simp add: v c)
  ultimately show ?thesis by blast
qed

section \<open>Properties of the transfer helpers\<close>

text \<open>
  Claim C3. \<open>hasTaskControl\<close> returns true, without fetching anything, whenever the task
  attributes have no \<open>transferMeta\<close> (or are missing altogether). When \<open>transferMeta\<close> is
  present it fetches the task of the given workspace and \<open>taskSid\<close>, and, when the fetch
  returns, its result is true exactly when \<open>transferMeta.sidWithTaskControl\<close> equals the
  \<open>sid\<close> of the fetched task.
\<close>

theorem hasTaskControl_iff:
  "((taskAttributes = None \<or> (\<exists>a. taskAttributes = Some a \<and> transferMeta a = None)) \<longrightarrow>
      hasTaskControl client workspaceSid taskSid taskAttributes s = (Inr True, s))
   \<and> (\<forall>a tm task w'.
        taskAttributes = Some a \<and> transferMeta a = Some tm
        \<and> tasks_fetch client (world s) workspaceSid taskSid = (Inr task, w') \<longrightarrow>
        hasTaskControl client workspaceSid taskSid taskAttributes s =
          (Inr (sidWithTaskControl tm = sid task),
           \<lparr>world = w', calls = calls s @ [TaskFetch workspaceSid taskSid]\<rparr>))"
  by (auto simp: hasTaskControl_def hasTransferStarted_def fetchTask_def)

theorem hasTaskControl_iff_witness:
  "hasTaskControl (exampleTaskrouter (chatChannel 1 0) (Some 3)) ''WS1'' ''WT1''
       (Some \<lparr>transferMeta = None, transferTargetType = None\<rparr>) initialState
     = (Inr True, initialState)
   \<and> hasTaskControl (exampleTaskrouter (chatChannel 1 0) (Some 3)) ''WS1'' ''WT1''
       (Some transferAttributes) initialState
     = (Inr True, \<lparr>world = 0, calls = [TaskFetch ''WS1'' ''WT1'']\<rparr>)
   \<and> hasTaskControl (exampleTaskrouter (chatChannel 1 0) (Some 3)) ''WS1'' ''WT2''
       (Some transferAttributes) initialState
     = (Inr False, \<lparr>world = 0, calls = [TaskFetch ''WS1'' ''WT2'']\<rparr>)"
proof -
  note h = hasTaskControl_iff [where client = "exampleTaskrouter (chatChannel 1 0) (Some 3)"
      and workspaceSid = "''WS1''" and s = initialState]
  have fetch: "\<And>t. tasks_fetch (exampleTaskrouter (chatChannel 1 0) (Some 3))
                 (world initialState) ''WS1'' t = (Inr \<lparr>sid = t\<rparr>, 0)"
    by (simp add: exampleTaskrouter_def initialState_def)
  have meta: "transferMeta transferAttributes
                = Some \<lparr>mode = COLD, transferStatus = Accepted, sidWithTaskControl = ''WT1''\<rparr>"
    by (simp add: transferAttributes_def)
  from h [where taskAttributes = "Some \<lparr>transferMeta = None, transferTargetType = None\<rparr>"
      and taskSid = "''WT1''"]
  have "hasTaskControl (exampleTaskrouter (chatChannel 1 0) (Some 3)) ''WS1'' ''WT1''
       (Some \<lparr>transferMeta = None, transferTargetType = None\<rparr>) initialState
     = (Inr True, initialState)"
    by simp
  moreover from h [where taskAttributes = "Some transferAttributes" and taskSid = "''WT1''"] fetch [of "''WT1''"] meta
  have "hasTaskControl (exampleTaskrouter (chatChannel 1 0) (Some 3)) ''WS1'' ''WT1''
       (Some transferAttributes) initialState
     = (Inr True, \<lparr>world = 0, calls = [TaskFetch ''WS1'' ''WT1'']\<rparr>)"
    by (simp add: initialState_def)
  moreover from h [where taskAttributes = "Some transferAttributes" and taskSid = "''WT2''"] fetch [of "''WT2''"] meta
  have "hasTaskControl (exampleTaskrouter (chatChannel 1 0) (Some 3)) ''WS1'' ''WT2''
       (Some transferAttributes) initialState
     = (Inr False, \<lparr>world = 0, calls = [TaskFetch ''WS1'' ''WT2'']\<rparr>)"
    by (simp add: initialState_def)
  ultimately show ?thesis by blast
qed

section \<open>Properties of sendErrorMessageForUnsupportedMedia\<close>

text \<open>
  Claim C6. For an event whose \<open>Body\<close> is truthy or whose \<open>Media\<close> is truthy,
  \<open>sendErrorMessageForUnsupportedMedia\<close> returns at once: it makes no call (no Twilio call, no
  message) and leaves the state as it was. Any run that makes a call had a \<open>Body\<close> that is
  absent or empty and no \<open>Media\<close>.
\<close>

theorem sendErrorMessage_only_without_body_and_media:
  "(truthy (Body event) \<or> Media event \<noteq> None \<longrightarrow>
      sendErrorMessageForUnsupportedMedia cv context event s = (Inr (), s))
   \<and> (\<forall>r s'. sendErrorMessageForUnsupportedMedia cv context event s = (r, s') \<and> s' \<noteq> s \<longrightarrow>
        (Body event = None \<or> Body event = Some []) \<and> Media event = None)"
  by (auto simp: sendErrorMessageForUnsupportedMedia_def truthy_def split: option.splits)

theorem sendErrorMessage_only_without_body_and_media_witness:
  "sendErrorMessageForUnsupportedMedia (exampleConversations None (Inr [])) exampleDomain
       (exampleEvent (Some ''hello'') None) initialState = (Inr (), initialState)
   \<and> sendErrorMessageForUnsupportedMedia (exampleConversations None (Inr [])) exampleDomain
       (exampleEvent None (Some [])) initialState = (Inr (), initialState)"
proof -
  note h = sendErrorMessage_only_without_body_and_media
    [of _ "exampleConversations None (Inr [])" exampleDomain initialState]
  from h [of "exampleEvent (Some ''hello'') None"]
  have "sendErrorMessageForUnsupportedMedia (exampleConversations None (Inr [])) exampleDomain
       (exampleEvent (Some ''hello'') None) initialState = (Inr (), initialState)"
    by (simp add: exampleEvent_def truthy_def)
  moreover from h [of "exampleEvent None (Some [])"]
  have "sendErrorMessageForUnsupportedMedia (exampleConversations None (Inr [])) exampleDomain
       (exampleEvent None (Some [])) initialState = (Inr (), initialState)"
    by (simp add: exampleEvent_def)
  ultimately show ?thesis by blast
qed

lemma messageText_cases:
  "(if lang \<noteq> [] then
      (case fetchJson cv u s1 of
         (Inl _, s') \<Rightarrow> (FALLBACK_ERROR_MESSAGE, s')
       | (Inr translation, s') \<Rightarrow>
           (case map_of translation ERROR_MESSAGE_TRANSLATION_KEY of
              None \<Rightarrow> (FALLBACK_ERROR_MESSAGE, s')
            | Some translatedMessage \<Rightarrow>
                (if translatedMessage \<noteq> [] then translatedMessage
                 else FALLBACK_ERROR_MESSAGE, s')))
    else (FALLBACK_ERROR_MESSAGE, s1))
   = (if lang \<noteq> [] then
        (case fst (fetch_json cv (world s1) u) of
           Inl _ \<Rightarrow> FALLBACK_ERROR_MESSAGE
         | Inr translation \<Rightarrow>
             (case map_of translation ERROR_MESSAGE_TRANSLATION_KEY of
                None \<Rightarrow> FALLBACK_ERROR_MESSAGE
              | Some t \<Rightarrow> if t \<noteq> [] then t else FALLBACK_ERROR_MESSAGE))
      else FALLBACK_ERROR_MESSAGE,
      if lang \<noteq> [] then
        \<lparr>world = snd (fetch_json cv (world s1) u), calls = calls s1 @ [HttpFetchJson u]\<rparr>
      else s1)"
  by (simp add: fetchJson_def split: prod.split sum.split option.split)

text \<open>The whole run for an event without truthy \<open>Body\<close> and without \<open>Media\<close>, once the
  configuration fetch has returned: the calls, in order, the text sent, and the result,
  which is the result of \<open>messages.create\<close>.\<close>

lemma sendErrorMessage_run:
  assumes "\<not> truthy (Body event)" and "Media event = None"
    and "flexConfiguration_fetch cv (world s) = (Inr serviceConfig, w1)"
    and "lang = (case helplineLanguage (configurationAttributes serviceConfig) of
                   None \<Rightarrow> ''en-US'' | Some l \<Rightarrow> l)"
    and "messageText =
           (if lang \<noteq> [] then
              (case fst (fetch_json cv w1 (translationUrl context lang)) of
                 Inl _ \<Rightarrow> FALLBACK_ERROR_MESSAGE
               | Inr translation \<Rightarrow>
                   (case map_of translation ERROR_MESSAGE_TRANSLATION_KEY of
                      None \<Rightarrow> FALLBACK_ERROR_MESSAGE
                    | Some t \<Rightarrow> if t \<noteq> [] then t else FALLBACK_ERROR_MESSAGE))
            else FALLBACK_ERROR_MESSAGE)"
    and "w2 = (if lang \<noteq> [] then snd (fetch_json cv w1 (translationUrl context lang)) else w1)"
    and "options = \<lparr>messageBody = messageText, author = ''Bot'',
                     xTwilioWebhookEnabled = ''true'', messageCreateAttributes = None\<rparr>"
  shows "sendErrorMessageForUnsupportedMedia cv context event s =
           (fst (messages_create cv w2 (ConversationSid event) options),
            \<lparr>world = snd (messages_create cv w2 (ConversationSid event) options),
             calls = calls s @ [FlexConfigurationFetch]
               @ (if lang \<noteq> [] then [HttpFetchJson (translationUrl context lang)] else [])
               @ [MessageCreate (ConversationSid event) options]\<rparr>)"
  using assms
  by (simp add: sendErrorMessageForUnsupportedMedia_def fetchConfiguration_def Let_def
      messageText_cases sendConversationMessage_def truthy_def split: prod.split)

lemma chosen_text_nonempty:
  "(if lang \<noteq> [] then
      (case fetched of
         Inl _ \<Rightarrow> FALLBACK_ERROR_MESSAGE
       | Inr translation \<Rightarrow>
           (case map_of translation ERROR_MESSAGE_TRANSLATION_KEY of
              None \<Rightarrow> FALLBACK_ERROR_MESSAGE
            | Some t \<Rightarrow> if t \<noteq> [] then t else FALLBACK_ERROR_MESSAGE))
    else FALLBACK_ERROR_MESSAGE) \<noteq> []"
  by (simp add: FALLBACK_ERROR_MESSAGE_def split: sum.split option.split)

lemma sendErrorMessage_messages:
  assumes run: "sendErrorMessageForUnsupportedMedia cv context event s = (r, s')"
    and sent: "MessageCreate conversationSid options \<in> set (drop (length (calls s)) (calls s'))"
  shows "messageBody options \<noteq> [] \<and> conversationSid = ConversationSid event
         \<and> author options = ''Bot''"
proof (cases "\<not> truthy (Body event) \<and> Media event = None")
  case False
  with run have "s' = s" by (auto simp: sendErrorMessageForUnsupportedMedia_def)
  with sent show ?thesis by simp
next
  case True
  obtain c w1 where cfg: "flexConfiguration_fetch cv (world s) = (c, w1)"
    by (cases "flexConfiguration_fetch cv (world s)")
  show ?thesis
  proof (cases c)
    case (Inl e)
    with True cfg run have "calls s' = calls s @ [FlexConfigurationFetch]"
      by (auto simp: sendErrorMessageForUnsupportedMedia_def fetchConfiguration_def)
    with sent show ?thesis by simp
  next
    case (Inr serviceConfig)
    define lang where "lang = (case helplineLanguage (configurationAttributes serviceConfig) of
                   None \<Rightarrow> ''en-US'' | Some l \<Rightarrow> l)"
    define messageText where "messageText =
           (if lang \<noteq> [] then
              (case fst (fetch_json cv w1 (translationUrl context lang)) of
                 Inl _ \<Rightarrow> FALLBACK_ERROR_MESSAGE
               | Inr translation \<Rightarrow>
                   (case map_of translation ERROR_MESSAGE_TRANSLATION_KEY of
                      None \<Rightarrow> FALLBACK_ERROR_MESSAGE
                    | Some t \<Rightarrow> if t \<noteq> [] then t else FALLBACK_ERROR_MESSAGE))
            else FALLBACK_ERROR_MESSAGE)"
    define w2 where
      "w2 = (if lang \<noteq> [] then snd (fetch_json cv w1 (translationUrl context lang)) else w1)"
    define opts where "opts = \<lparr>messageBody = messageText, author = ''Bot'',
                     xTwilioWebhookEnabled = ''true'', messageCreateAttributes = None\<rparr>"
    from True cfg Inr have f: "\<not> truthy (Body event)" "Media event = None"
      "flexConfiguration_fetch cv (world s) = (Inr serviceConfig, w1)" by simp_all
    have "sendErrorMessageForUnsupportedMedia cv context event s =
           (fst (messages_create cv w2 (ConversationSid event) opts),
            \<lparr>world = snd (messages_create cv w2 (ConversationSid event) opts),
             calls = calls s @ [FlexConfigurationFetch]
               @ (if lang \<noteq> [] then [HttpFetchJson (translationUrl context lang)] else [])
               @ [MessageCreate (ConversationSid event) opts]\<rparr>)"
      by (rule sendErrorMessage_run [OF f lang_def messageText_def w2_def opts_def])
    with run have "drop (length (calls s)) (calls s') = [FlexConfigurationFetch]
               @ (if lang \<noteq> [] then [HttpFetchJson (translationUrl context lang)] else [])
               @ [MessageCreate (ConversationSid event) opts]"
      by auto
    with sent have "conversationSid = ConversationSid event \<and> options = opts"
      by (auto split: if_splits)
    moreover have "messageText \<noteq> []"
      unfolding messageText_def by (rule chosen_text_nonempty)
    ultimately show ?thesis by (simp add: opts_def)
  qed
qed

text \<open>
  Claim C10. Whenever \<open>sendErrorMessageForUnsupportedMedia\<close> sends a message, in any run, its
  text is not empty (and it goes to the conversation of the event, from \<open>Bot\<close>). For an
  event without truthy \<open>Body\<close> and without \<open>Media\<close>, once the fetch of the Flex configuration
  has returned, the run is this: with \<open>lang\<close> the helpline language (\<open>en-US\<close> when the
  configuration has none), the calls are the configuration fetch, the translation fetch
  (when \<open>lang\<close> is not empty) and then exactly one \<open>messages.create\<close>, whatever the
  translation fetch answered (also an exception); the text is the value of
  \<open>UnsupportedMediaErrorMsg\<close> in the translation when the fetch was made, returned, and that
  value is truthy, and "Unsupported message type." in every other case.
\<close>

theorem sendErrorMessage_text:
  "(\<forall>r s' conversationSid options.
      sendErrorMessageForUnsupportedMedia cv context event s = (r, s')
      \<and> MessageCreate conversationSid options \<in> set (drop (length (calls s)) (calls s')) \<longrightarrow>
      messageBody options \<noteq> [] \<and> conversationSid = ConversationSid event
      \<and> author options = ''Bot'')
   \<and> (\<forall>serviceConfig w1 lang fetched w2.
      \<not> truthy (Body event) \<and> Media event = None
      \<and> flexConfiguration_fetch cv (world s) = (Inr serviceConfig, w1)
      \<and> lang = (case helplineLanguage (configurationAttributes serviceConfig) of
                  None \<Rightarrow> ''en-US'' | Some l \<Rightarrow> l)
      \<and> fetched = fst (fetch_json cv w1 (translationUrl context lang))
      \<and> w2 = (if lang \<noteq> [] then snd (fetch_json cv w1 (translationUrl context lang)) else w1)
      \<longrightarrow>
      (\<exists>messageText options.
         options = \<lparr>messageBody = messageText, author = ''Bot'',
                    xTwilioWebhookEnabled = ''true'', messageCreateAttributes = None\<rparr>
         \<and> sendErrorMessageForUnsupportedMedia cv context event s =
             (fst (messages_create cv w2 (ConversationSid event) options),
              \<lparr>world = snd (messages_create cv w2 (ConversationSid event) options),
               calls = calls s @ [FlexConfigurationFetch]
                 @ (if lang \<noteq> [] then [HttpFetchJson (translationUrl context lang)] else [])
                 @ [MessageCreate (ConversationSid event) options]\<rparr>)
         \<and> messageText \<noteq> []
         \<and> (\<forall>translation t. lang \<noteq> [] \<and> fetched = Inr translation
               \<and> map_of translation ''UnsupportedMediaErrorMsg'' = Some t \<and> t \<noteq> []
               \<longrightarrow> messageText = t)
         \<and> (\<not> (\<exists>translation t. lang \<noteq> [] \<and> fetched = Inr translation
               \<and> map_of translation ''UnsupportedMediaErrorMsg'' = Some t \<and> t \<noteq> [])
               \<longrightarrow> messageText = ''Unsupported message type.'')))"
proof (rule conjI)
  show "\<forall>r s' conversationSid options.
      sendErrorMessageForUnsupportedMedia cv context event s = (r, s')
      \<and> MessageCreate conversationSid options \<in> set (drop (length (calls s)) (calls s')) \<longrightarrow>
      messageBody options \<noteq> [] \<and> conversationSid = ConversationSid event
      \<and> author options = ''Bot''"
    using sendErrorMessage_messages by blast
next
  show "\<forall>serviceConfig w1 lang fetched w2.
      \<not> truthy (Body event) \<and> Media event = None
      \<and> flexConfiguration_fetch cv (world s) = (Inr serviceConfig, w1)
      \<and> lang = (case helplineLanguage (configurationAttributes serviceConfig) of
                  None \<Rightarrow> ''en-US'' | Some l \<Rightarrow> l)
      \<and> fetched = fst (fetch_json cv w1 (translationUrl context lang))
      \<and> w2 = (if lang \<noteq> [] then snd (fetch_json cv w1 (translationUrl context lang)) else w1)
      \<longrightarrow>
      (\<exists>messageText options.
         options = \<lparr>messageBody = messageText, author = ''Bot'',
                    xTwilioWebhookEnabled = ''true'', messageCreateAttributes = None\<rparr>
         \<and> sendErrorMessageForUnsupportedMedia cv context event s =
             (fst (messages_create cv w2 (ConversationSid event) options),
              \<lparr>world = snd (messages_create cv w2 (ConversationSid event) options),
               calls = calls s @ [FlexConfigurationFetch]
                 @ (if lang \<noteq> [] then [HttpFetchJson (translationUrl context lang)] else [])
                 @ [MessageCreate (ConversationSid event) options]\<rparr>)
         \<and> messageText \<noteq> []
         \<and> (\<forall>translation t. lang \<noteq> [] \<and> fetched = Inr translation
               \<and> map_of translation ''UnsupportedMediaErrorMsg'' = Some t \<and> t \<noteq> []
               \<longrightarrow> messageText = t)
         \<and> (\<not> (\<exists>translation t. lang \<noteq> [] \<and> fetched = Inr translation
               \<and> map_of translation ''UnsupportedMediaErrorMsg'' = Some t \<and> t \<noteq> [])
               \<longrightarrow> messageText = ''Unsupported message type.''))"
  proof (intro allI impI)
  fix serviceConfig w1 lang fetched w2
  assume a: "\<not> truthy (Body event) \<and> Media event = None
      \<and> flexConfiguration_fetch cv (world s) = (Inr serviceConfig, w1)
      \<and> lang = (case helplineLanguage (configurationAttributes serviceConfig) of
                  None \<Rightarrow> ''en-US'' | Some l \<Rightarrow> l)
      \<and> fetched = fst (fetch_json cv w1 (translationUrl context lang))
      \<and> w2 = (if lang \<noteq> [] then snd (fetch_json cv w1 (translationUrl context lang)) else w1)"
  define messageText where "messageText =
           (if lang \<noteq> [] then
              (case fst (fetch_json cv w1 (translationUrl context lang)) of
                 Inl _ \<Rightarrow> FALLBACK_ERROR_MESSAGE
               | Inr translation \<Rightarrow>
                   (case map_of translation ERROR_MESSAGE_TRANSLATION_KEY of
                      None \<Rightarrow> FALLBACK_ERROR_MESSAGE
                    | Some t \<Rightarrow> if t \<noteq> [] then t else FALLBACK_ERROR_MESSAGE))
            else FALLBACK_ERROR_MESSAGE)"
  define options where "options = \<lparr>messageBody = messageText, author = ''Bot'',
                    xTwilioWebhookEnabled = ''true'', messageCreateAttributes = None\<rparr>"
  from a have f: "\<not> truthy (Body event)" "Media event = None"
      "flexConfiguration_fetch cv (world s) = (Inr serviceConfig, w1)"
      "lang = (case helplineLanguage (configurationAttributes serviceConfig) of
                  None \<Rightarrow> ''en-US'' | Some l \<Rightarrow> l)"
    and w2: "w2 = (if lang \<noteq> [] then snd (fetch_json cv w1 (translationUrl context lang))
                   else w1)"
    by simp_all
  have run: "sendErrorMessageForUnsupportedMedia cv context event s =
             (fst (messages_create cv w2 (ConversationSid event) options),
              \<lparr>world = snd (messages_create cv w2 (ConversationSid event) options),
               calls = calls s @ [FlexConfigurationFetch]
                 @ (if lang \<noteq> [] then [HttpFetchJson (translationUrl context lang)] else [])
                 @ [MessageCreate (ConversationSid event) options]\<rparr>)"
    by (rule sendErrorMessage_run [OF f messageText_def w2 options_def])
  have nonempty: "messageText \<noteq> []"
    unfolding messageText_def by (rule chosen_text_nonempty)
  have translated: "\<forall>translation t. lang \<noteq> [] \<and> fetched = Inr translation
               \<and> map_of translation ''UnsupportedMediaErrorMsg'' = Some t \<and> t \<noteq> []
               \<longrightarrow> messageText = t"
    using a by (auto simp: messageText_def ERROR_MESSAGE_TRANSLATION_KEY_def)
  have fallback: "\<not> (\<exists>translation t. lang \<noteq> [] \<and> fetched = Inr translation
               \<and> map_of translation ''UnsupportedMediaErrorMsg'' = Some t \<and> t \<noteq> [])
               \<longrightarrow> messageText = ''Unsupported message type.''"
    using a by (auto simp: messageText_def ERROR_MESSAGE_TRANSLATION_KEY_def
        FALLBACK_ERROR_MESSAGE_def split: sum.splits option.splits)
  from run nonempty translated fallback options_def
  show "\<exists>messageText options.
         options = \<lparr>messageBody = messageText, author = ''Bot'',
                    xTwilioWebhookEnabled = ''true'', messageCreateAttributes = None\<rparr>
         \<and> sendErrorMessageForUnsupportedMedia cv context event s =
             (fst (messages_create cv w2 (ConversationSid event) options),
              \<lparr>world = snd (messages_create cv w2 (ConversationSid event) options),
               calls = calls s @ [FlexConfigurationFetch]
                 @ (if lang \<noteq> [] then [HttpFetchJson (translationUrl context lang)] else [])
                 @ [MessageCreate (ConversationSid event) options]\<rparr>)
         \<and> messageText \<noteq> []
         \<and> (\<forall>translation t. lang \<noteq> [] \<and> fetched = Inr translation
               \<and> map_of translation ''UnsupportedMediaErrorMsg'' = Some t \<and> t \<noteq> []
               \<longrightarrow> messageText = t)
         \<and> (\<not> (\<exists>translation t. lang \<noteq> [] \<and> fetched = Inr translation
               \<and> map_of translation ''UnsupportedMediaErrorMsg'' = Some t \<and> t \<noteq> [])
               \<longrightarrow> messageText = ''Unsupported message type.'')"
    by blast
  qed
qed

theorem sendErrorMessage_text_witness:
  "sendErrorMessageForUnsupportedMedia
       (exampleConversations (Some ''pt-BR'')
          (Inr [(''UnsupportedMediaErrorMsg'', ''Tipo de mensagem nao suportado.'')]))
       exampleDomain (exampleEvent (Some []) None) initialState =
     (Inr (),
      \<lparr>world = 1,
       calls = [FlexConfigurationFetch,
                HttpFetchJson ''https://example.twil.io/translations/pt-BR/messages.json'',
                MessageCreate ''CH1''
                  \<lparr>messageBody = ''Tipo de mensagem nao suportado.'', author = ''Bot'',
                   xTwilioWebhookEnabled = ''true'', messageCreateAttributes = None\<rparr>]\<rparr>)
   \<and> sendErrorMessageForUnsupportedMedia
       (exampleConversations None (Inl (Error ''fetch failed'')))
       exampleDomain (exampleEvent None None) initialState =
     (Inr (),
      \<lparr>world = 1,
       calls = [FlexConfigurationFetch,
                HttpFetchJson ''https://example.twil.io/translations/en-US/messages.json'',
                MessageCreate ''CH1''
                  \<lparr>messageBody = ''Unsupported message type.'', author = ''Bot'',
                   xTwilioWebhookEnabled = ''true'', messageCreateAttributes = None\<rparr>]\<rparr>)"
proof -
  let ?tr = "[(''UnsupportedMediaErrorMsg'', ''Tipo de mensagem nao suportado.'')]"
  let ?C1 = "exampleConversations (Some ''pt-BR'') (Inr ?tr)"
  let ?C2 = "exampleConversations None (Inl (Error ''fetch failed''))"
  note t = sendErrorMessage_text [THEN conjunct2, rule_format]
  have sid: "\<And>b m. ConversationSid (exampleEvent b m) = ''CH1''"
    by (simp add: exampleEvent_def)
  have create: "\<And>l f w c opts. messages_create (exampleConversations l f) w c opts
                  = (Inr (), Suc w)"
    by (simp add: exampleConversations_def)
  have p1: "\<not> truthy (Body (exampleEvent (Some []) None))
      \<and> Media (exampleEvent (Some []) None) = None
      \<and> flexConfiguration_fetch ?C1 (world initialState)
          = (Inr \<lparr>configurationAttributes = \<lparr>helplineLanguage = Some ''pt-BR''\<rparr>\<rparr>, 0)
      \<and> ''pt-BR'' = (case helplineLanguage (configurationAttributes
                        \<lparr>configurationAttributes = \<lparr>helplineLanguage = Some ''pt-BR''\<rparr>\<rparr>) of
                  None \<Rightarrow> ''en-US'' | Some l \<Rightarrow> l)
      \<and> Inr ?tr = fst (fetch_json ?C1 0 (translationUrl exampleDomain ''pt-BR''))
      \<and> 0 = (if ''pt-BR'' \<noteq> [] then snd (fetch_json ?C1 0 (translationUrl exampleDomain ''pt-BR''))
             else 0)"
    by (simp add: exampleEvent_def truthy_def exampleConversations_def initialState_def)
  from t [OF p1] obtain text1 opts1 where o1:
    "opts1 = \<lparr>messageBody = text1, author = ''Bot'',
              xTwilioWebhookEnabled = ''true'', messageCreateAttributes = None\<rparr>"
    "sendErrorMessageForUnsupportedMedia ?C1 exampleDomain (exampleEvent (Some []) None)
         initialState =
       (fst (messages_create ?C1 0 (ConversationSid (exampleEvent (Some []) None)) opts1),
        \<lparr>world = snd (messages_create ?C1 0 (ConversationSid (exampleEvent (Some []) None))
                        opts1),
         calls = calls initialState @ [FlexConfigurationFetch]
           @ (if ''pt-BR'' \<noteq> [] then [HttpFetchJson (translationUrl exampleDomain ''pt-BR'')]
              else [])
           @ [MessageCreate (ConversationSid (exampleEvent (Some []) None)) opts1]\<rparr>)"
    "\<forall>translation t. ''pt-BR'' \<noteq> [] \<and> Inr ?tr = Inr translation
               \<and> map_of translation ''UnsupportedMediaErrorMsg'' = Some t \<and> t \<noteq> []
               \<longrightarrow> text1 = t"
    by blast
  from o1(3) have "text1 = ''Tipo de mensagem nao suportado.''" by simp
  with o1(1,2) have r1: "sendErrorMessageForUnsupportedMedia ?C1 exampleDomain
       (exampleEvent (Some []) None) initialState =
     (Inr (),
      \<lparr>world = 1,
       calls = [FlexConfigurationFetch,
                HttpFetchJson ''https://example.twil.io/translations/pt-BR/messages.json'',
                MessageCreate ''CH1''
                  \<lparr>messageBody = ''Tipo de mensagem nao suportado.'', author = ''Bot'',
                   xTwilioWebhookEnabled = ''true'', messageCreateAttributes = None\<rparr>]\<rparr>)"
    by (simp add: sid create initialState_def translationUrl_def exampleDomain_def)
  have p2: "\<not> truthy (Body (exampleEvent None None))
      \<and> Media (exampleEvent None None) = None
      \<and> flexConfiguration_fetch ?C2 (world initialState)
          = (Inr \<lparr>configurationAttributes = \<lparr>helplineLanguage = None\<rparr>\<rparr>, 0)
      \<and> ''en-US'' = (case helplineLanguage (configurationAttributes
                        \<lparr>configurationAttributes = \<lparr>helplineLanguage = None\<rparr>\<rparr>) of
                  None \<Rightarrow> ''en-US'' | Some l \<Rightarrow> l)
      \<and> Inl (Error ''fetch failed'')
          = fst (fetch_json ?C2 0 (translationUrl exampleDomain ''en-US''))
      \<and> 0 = (if ''en-US'' \<noteq> [] then snd (fetch_json ?C2 0 (translationUrl exampleDomain ''en-US''))
             else 0)"
    by (simp add: exampleEvent_def truthy_def exampleConversations_def initialState_def)
  from t [OF p2] obtain text2 opts2 where o2:
    "opts2 = \<lparr>messageBody = text2, author = ''Bot'',
              xTwilioWebhookEnabled = ''true'', messageCreateAttributes = None\<rparr>"
    "sendErrorMessageForUnsupportedMedia ?C2 exampleDomain (exampleEvent None None)
         initialState =
       (fst (messages_create ?C2 0 (ConversationSid (exampleEvent None None)) opts2),
        \<lparr>world = snd (messages_create ?C2 0 (ConversationSid (exampleEvent None None)) opts2),
         calls = calls initialState @ [FlexConfigurationFetch]
           @ (if ''en-US'' \<noteq> [] then [HttpFetchJson (translationUrl exampleDomain ''en-US'')]
              else [])
           @ [MessageCreate (ConversationSid (exampleEvent None None)) opts2]\<rparr>)"
    "\<not> (\<exists>translation t. ''en-US'' \<noteq> [] \<and> Inl (Error ''fetch failed'') = Inr translation
               \<and> map_of translation ''UnsupportedMediaErrorMsg'' = Some t \<and> t \<noteq> [])
               \<longrightarrow> text2 = ''Unsupported message type.''"
    by blast
  from o2(3) have "text2 = ''Unsupported message type.''" by simp
  with o2(1,2) have r2: "sendErrorMessageForUnsupportedMedia ?C2 exampleDomain
       (exampleEvent None None) initialState =
     (Inr (),
      \<lparr>world = 1,
       calls = [FlexConfigurationFetch,
                HttpFetchJson ''https://example.twil.io/translations/en-US/messages.json'',
                MessageCreate ''CH1''
                  \<lparr>messageBody = ''Unsupported message type.'', author = ''Bot'',
                   xTwilioWebhookEnabled = ''true'', messageCreateAttributes = None\<rparr>]\<rparr>)"
    by (simp add: sid create initialState_def translationUrl_def exampleDomain_def)
  from r1 r2 show ?thesis by (rule conjI)
qed

section \<open>Properties of saveContactToSaferNet.ts\<close>

lemma hexDigit_lower: "hexDigit n \<in> set ''0123456789abcdef''"
proof -
  have "n mod 16 < length ''0123456789abcdef''" by simp
  then show ?thesis unfolding hexDigit_def by (rule nth_mem)
qed

lemma digestHex_lower: "set (digestHex bytes) \<subseteq> set ''0123456789abcdef''"
  unfolding digestHex_def using hexDigit_lower by (induction bytes) auto

lemma digestHex_length: "length (digestHex bytes) = 2 * length bytes"
  unfolding digestHex_def by (induction bytes) auto

lemma isValidRequest_calls:
  assumes "isValidRequest sn context event s = (b, s1)"
  shows "\<exists>earlier. calls s1 = calls s @ earlier \<and> (\<forall>request. AxiosRequest request \<notin> set earlier)"
  using assms
  by (auto simp: isValidRequest_def split: if_splits option.splits prod.splits)

lemma handler_requests:
  assumes run: "saveContactToSaferNet_handler sn context event s = (r, resolved, s')"
    and sent: "AxiosRequest request \<in> set (drop (length (calls s)) (calls s'))"
  shows "\<exists>encoded. encodeURIComponent sn (payload event) = Inr encoded
           \<and> JSON_parse sn (payload event) = Inr (data request)
           \<and> headers request = [(''Content-Type'', ''application/json''),
                 (''X-Signature'', ''sha256='' @ digestHex
                    (hmac_sha256 sn (SAFERNET_TOKEN context) encoded))]"
proof -
  obtain b s1 where v: "isValidRequest sn context event s = (b, s1)"
    by (cases "isValidRequest sn context event s")
  from isValidRequest_calls [OF v] obtain earlier
    where e: "calls s1 = calls s @ earlier" "\<forall>q. AxiosRequest q \<notin> set earlier"
    by blast
  from run sent v e show ?thesis
    by (auto simp: saveContactToSaferNet_handler_def Let_def
        split: if_splits prod.splits sum.splits bool.splits)
qed

lemma example_env:
  "SAFERNET_ENDPOINT exampleSaveContext \<noteq> []" "SAFERNET_TOKEN exampleSaveContext \<noteq> []"
  "SAVE_PENDING_CONTACTS_STATIC_KEY exampleSaveContext \<noteq> []"
  by (simp_all add: exampleSaveContext_def)

lemma example_valid:
  "isValidRequest (exampleSaferNet answer) exampleSaveContext (exampleSaveEvent p) initialState
     = (True, initialState)"
  by (simp add: isValidRequest_def exampleSaveEvent_def exampleSaveContext_def truthy_def)

lemma example_encode:
  "encodeURIComponent (exampleSaferNet answer) (payload (exampleSaveEvent p)) = Inr p"
  by (simp add: exampleSaferNet_def exampleSaveEvent_def)

lemma example_parse_ok:
  "JSON_parse (exampleSaferNet answer) (payload (exampleSaveEvent ''1'')) = Inr ''1''"
  by (simp add: exampleSaferNet_def exampleSaveEvent_def)

lemma example_parse_fails:
  "JSON_parse (exampleSaferNet answer) (payload (exampleSaveEvent ''{'')) =
     Inl (SyntaxError ''Unexpected token'')"
  by (simp add: exampleSaferNet_def exampleSaveEvent_def)

lemma example_signature:
  "digestHex (hmac_sha256 (exampleSaferNet answer) key p) = ''ab01''"
  by (simp add: exampleSaferNet_def digestHex_def hexDigit_def)

lemma example_request:
  "\<lparr>url = SAFERNET_ENDPOINT exampleSaveContext, requestMethod = ''POST'', data = ''1'',
    headers = [(''Content-Type'', ''application/json''),
               (''X-Signature'', ''sha256='' @ digestHex
                  (hmac_sha256 (exampleSaferNet answer) (SAFERNET_TOKEN exampleSaveContext)
                     ''1''))]\<rparr> = exampleRequest"
  by (simp add: example_signature) (simp add: exampleRequest_def exampleSaveContext_def)

lemma example_axios:
  "axios (exampleSaferNet answer) (world initialState) request = (answer, 1)"
  by (simp add: exampleSaferNet_def initialState_def)

text \<open>
  Claim C4. Every request that the handler of \<open>saveContactToSaferNet.ts\<close> sends to SaferNet
  carries the header \<open>X-Signature\<close> with the value \<open>sha256=\<close> followed by the hexadecimal
  digest (two lowercase digits for each byte) of the HMAC-SHA256, keyed with
  \<open>SAFERNET_TOKEN\<close>, of \<open>encodeURIComponent(payload)\<close>, and its body is
  \<open>JSON.parse(payload)\<close>. The request is sent, as a POST to \<open>SAFERNET_ENDPOINT\<close>,
  whenever the environment is complete, the caller is valid and both
  \<open>encodeURIComponent(payload)\<close> and \<open>JSON.parse(payload)\<close> return.
\<close>

theorem saferNet_request_signed:
  "(\<forall>r resolved s' request.
      saveContactToSaferNet_handler sn context event s = (r, resolved, s')
      \<and> AxiosRequest request \<in> set (drop (length (calls s)) (calls s')) \<longrightarrow>
      (\<exists>encoded signedPayload.
         encodeURIComponent sn (payload event) = Inr encoded
         \<and> signedPayload = digestHex (hmac_sha256 sn (SAFERNET_TOKEN context) encoded)
         \<and> map_of (headers request) ''X-Signature'' = Some (''sha256='' @ signedPayload)
         \<and> length signedPayload = 2 * length (hmac_sha256 sn (SAFERNET_TOKEN context) encoded)
         \<and> set signedPayload \<subseteq> set ''0123456789abcdef''
         \<and> JSON_parse sn (payload event) = Inr (data request)))
   \<and> (\<forall>s1 encoded parsed.
      SAFERNET_ENDPOINT context \<noteq> [] \<and> SAFERNET_TOKEN context \<noteq> []
      \<and> SAVE_PENDING_CONTACTS_STATIC_KEY context \<noteq> []
      \<and> isValidRequest sn context event s = (True, s1)
      \<and> encodeURIComponent sn (payload event) = Inr encoded
      \<and> JSON_parse sn (payload event) = Inr parsed \<longrightarrow>
      (\<exists>request resolved w'.
         saveContactToSaferNet_handler sn context event s =
           (Inr (), resolved, \<lparr>world = w', calls = calls s1 @ [AxiosRequest request]\<rparr>)
         \<and> map_of (headers request) ''X-Signature'' =
             Some (''sha256='' @ digestHex (hmac_sha256 sn (SAFERNET_TOKEN context) encoded))
         \<and> data request = parsed
         \<and> url request = SAFERNET_ENDPOINT context
         \<and> requestMethod request = ''POST''))"
proof (intro conjI allI impI)
  fix r resolved s' request
  assume a: "saveContactToSaferNet_handler sn context event s = (r, resolved, s')
      \<and> AxiosRequest request \<in> set (drop (length (calls s)) (calls s'))"
  then obtain encoded where e: "encodeURIComponent sn (payload event) = Inr encoded"
    "JSON_parse sn (payload event) = Inr (data request)"
    "headers request = [(''Content-Type'', ''application/json''),
                 (''X-Signature'', ''sha256='' @ digestHex
                    (hmac_sha256 sn (SAFERNET_TOKEN context) encoded))]"
    using handler_requests by blast
  show "\<exists>encoded signedPayload.
         encodeURIComponent sn (payload event) = Inr encoded
         \<and> signedPayload = digestHex (hmac_sha256 sn (SAFERNET_TOKEN context) encoded)
         \<and> map_of (headers request) ''X-Signature'' = Some (''sha256='' @ signedPayload)
         \<and> length signedPayload = 2 * length (hmac_sha256 sn (SAFERNET_TOKEN context) encoded)
         \<and> set signedPayload \<subseteq> set ''0123456789abcdef''
         \<and> JSON_parse sn (payload event) = Inr (data request)"
    using e digestHex_lower [of "hmac_sha256 sn (SAFERNET_TOKEN context) encoded"]
    by (simp add: digestHex_length)
next
  fix s1 encoded parsed
  assume "SAFERNET_ENDPOINT context \<noteq> [] \<and> SAFERNET_TOKEN context \<noteq> []
      \<and> SAVE_PENDING_CONTACTS_STATIC_KEY context \<noteq> []
      \<and> isValidRequest sn context event s = (True, s1)
      \<and> encodeURIComponent sn (payload event) = Inr encoded
      \<and> JSON_parse sn (payload event) = Inr parsed"
  then show "\<exists>request resolved w'.
         saveContactToSaferNet_handler sn context event s =
           (Inr (), resolved, \<lparr>world = w', calls = calls s1 @ [AxiosRequest request]\<rparr>)
         \<and> map_of (headers request) ''X-Signature'' =
             Some (''sha256='' @ digestHex (hmac_sha256 sn (SAFERNET_TOKEN context) encoded))
         \<and> data request = parsed
         \<and> url request = SAFERNET_ENDPOINT context
         \<and> requestMethod request = ''POST''"
    by (simp add: saveContactToSaferNet_handler_def Let_def split: prod.split sum.split)
qed

theorem saferNet_request_signed_witness:
  "\<exists>request resolved w'.
     saveContactToSaferNet_handler
         (exampleSaferNet (Inr \<lparr>dataSuccess = True,
            post_survey_link = ''https://safernet.example/s/1'', error_message = []\<rparr>))
         exampleSaveContext (exampleSaveEvent ''1'') initialState =
       (Inr (), resolved, \<lparr>world = w', calls = calls initialState @ [AxiosRequest request]\<rparr>)
     \<and> map_of (headers request) ''X-Signature'' = Some ''sha256=ab01''
     \<and> data request = ''1''
     \<and> url request = ''https://safernet.example/survey''
     \<and> requestMethod request = ''POST''"
proof -
  let ?sn = "exampleSaferNet (Inr \<lparr>dataSuccess = True,
            post_survey_link = ''https://safernet.example/s/1'', error_message = []\<rparr>)"
  have hyps: "SAFERNET_ENDPOINT exampleSaveContext \<noteq> [] \<and> SAFERNET_TOKEN exampleSaveContext \<noteq> []
      \<and> SAVE_PENDING_CONTACTS_STATIC_KEY exampleSaveContext \<noteq> []
      \<and> isValidRequest ?sn exampleSaveContext (exampleSaveEvent ''1'') initialState
          = (True, initialState)
      \<and> encodeURIComponent ?sn (payload (exampleSaveEvent ''1'')) = Inr ''1''
      \<and> JSON_parse ?sn (payload (exampleSaveEvent ''1'')) = Inr ''1''"
    by (simp add: example_env example_valid example_encode example_parse_ok)
  from saferNet_request_signed [of ?sn exampleSaveContext "exampleSaveEvent ''1''" initialState]
    hyps
  have "\<exists>request resolved w'.
         saveContactToSaferNet_handler ?sn exampleSaveContext (exampleSaveEvent ''1'')
             initialState =
           (Inr (), resolved, \<lparr>world = w', calls = calls initialState @ [AxiosRequest request]\<rparr>)
         \<and> map_of (headers request) ''X-Signature'' =
             Some (''sha256='' @ digestHex (hmac_sha256 ?sn (SAFERNET_TOKEN exampleSaveContext)
                ''1''))
         \<and> data request = ''1''
         \<and> url request = SAFERNET_ENDPOINT exampleSaveContext
         \<and> requestMethod request = ''POST''"
    by blast
  then show ?thesis
    by (simp add: example_signature) (simp add: exampleSaveContext_def)
qed

text \<open>
  Claim C7. Once the handler has accepted the caller, it resolves exactly one response:
  \<open>success(data.post_survey_link)\<close> when SaferNet answers and \<open>data.success\<close> is truthy,
  \<open>error500\<close> of an error carrying \<open>data.error_message\<close> when it answers otherwise, and
  \<open>error500\<close> of the thrown error when the request, \<open>JSON.parse\<close> or
  \<open>encodeURIComponent\<close> throws.
\<close>

theorem saferNet_resolves_once:
  assumes "SAFERNET_ENDPOINT context \<noteq> []" and "SAFERNET_TOKEN context \<noteq> []"
    and "SAVE_PENDING_CONTACTS_STATIC_KEY context \<noteq> []"
    and "isValidRequest sn context event s = (True, s1)"
  shows "(\<exists>resolved s'. saveContactToSaferNet_handler sn context event s = (Inr (), [resolved], s'))
   \<and> (\<forall>err. encodeURIComponent sn (payload event) = Inl err \<longrightarrow>
        saveContactToSaferNet_handler sn context event s = (Inr (), [error500 err], s1))
   \<and> (\<forall>encoded err. encodeURIComponent sn (payload event) = Inr encoded
                     \<and> JSON_parse sn (payload event) = Inl err \<longrightarrow>
        saveContactToSaferNet_handler sn context event s = (Inr (), [error500 err], s1))
   \<and> (\<forall>encoded parsed request answer w'.
        encodeURIComponent sn (payload event) = Inr encoded
        \<and> JSON_parse sn (payload event) = Inr parsed
        \<and> request = \<lparr>url = SAFERNET_ENDPOINT context, requestMethod = ''POST'', data = parsed,
                      headers = [(''Content-Type'', ''application/json''),
                                 (''X-Signature'', ''sha256='' @ digestHex
                                    (hmac_sha256 sn (SAFERNET_TOKEN context) encoded))]\<rparr>
        \<and> axios sn (world s1) request = (answer, w') \<longrightarrow>
        saveContactToSaferNet_handler sn context event s =
          (Inr (),
           [case answer of
              Inl err \<Rightarrow> error500 err
            | Inr saferNetData \<Rightarrow>
                if dataSuccess saferNetData then success (post_survey_link saferNetData)
                else error500 (Error (error_message saferNetData))],
           \<lparr>world = w', calls = calls s1 @ [AxiosRequest request]\<rparr>))"
  using assms
  by (auto simp: saveContactToSaferNet_handler_def Let_def split: prod.split sum.split)


theorem saferNet_resolves_once_witness:
  "saveContactToSaferNet_handler
       (exampleSaferNet (Inr \<lparr>dataSuccess = True,
          post_survey_link = ''https://safernet.example/s/1'', error_message = []\<rparr>))
       exampleSaveContext (exampleSaveEvent ''1'') initialState
     = (Inr (), [success ''https://safernet.example/s/1''],
        \<lparr>world = 1, calls = calls initialState @ [AxiosRequest exampleRequest]\<rparr>)
   \<and> saveContactToSaferNet_handler
       (exampleSaferNet (Inr \<lparr>dataSuccess = False, post_survey_link = [],
          error_message = ''Unknown contact''\<rparr>))
       exampleSaveContext (exampleSaveEvent ''1'') initialState
     = (Inr (), [error500 (Error ''Unknown contact'')],
        \<lparr>world = 1, calls = calls initialState @ [AxiosRequest exampleRequest]\<rparr>)
   \<and> saveContactToSaferNet_handler
       (exampleSaferNet (Inl (AxiosError ''Request failed with status code 502'')))
       exampleSaveContext (exampleSaveEvent ''1'') initialState
     = (Inr (), [error500 (AxiosError ''Request failed with status code 502'')],
        \<lparr>world = 1, calls = calls initialState @ [AxiosRequest exampleRequest]\<rparr>)
   \<and> saveContactToSaferNet_handler
       (exampleSaferNet (Inl (AxiosError ''Request failed with status code 502'')))
       exampleSaveContext (exampleSaveEvent ''{'') initialState
     = (Inr (), [error500 (SyntaxError ''Unexpected token'')], initialState)"
proof -
  note once = saferNet_resolves_once [OF example_env example_valid]
  note answered = once [THEN conjunct2, THEN conjunct2, THEN conjunct2, rule_format]
  note unparsed = once [THEN conjunct2, THEN conjunct2, THEN conjunct1, rule_format]
  have run: "saveContactToSaferNet_handler (exampleSaferNet answer) exampleSaveContext
          (exampleSaveEvent ''1'') initialState =
        (Inr (),
         [case answer of
            Inl err \<Rightarrow> error500 err
          | Inr saferNetData \<Rightarrow>
              if dataSuccess saferNetData then success (post_survey_link saferNetData)
              else error500 (Error (error_message saferNetData))],
         \<lparr>world = 1, calls = calls initialState @ [AxiosRequest exampleRequest]\<rparr>)"
    for answer
  proof (rule answered)
    show "encodeURIComponent (exampleSaferNet answer) (payload (exampleSaveEvent ''1'')) = Inr ''1''
        \<and> JSON_parse (exampleSaferNet answer) (payload (exampleSaveEvent ''1'')) = Inr ''1''
        \<and> exampleRequest =
            \<lparr>url = SAFERNET_ENDPOINT exampleSaveContext, requestMethod = ''POST'', data = ''1'',
             headers = [(''Content-Type'', ''application/json''),
               (''X-Signature'', ''sha256='' @ digestHex
                  (hmac_sha256 (exampleSaferNet answer) (SAFERNET_TOKEN exampleSaveContext)
                     ''1''))]\<rparr>
        \<and> axios (exampleSaferNet answer) (world initialState) exampleRequest = (answer, 1)"
      using example_encode [of answer "''1''"] example_parse_ok [of answer]
        example_request [of answer, symmetric] example_axios [of answer exampleRequest]
      by (intro conjI)
  qed
  have fails: "saveContactToSaferNet_handler (exampleSaferNet answer) exampleSaveContext
          (exampleSaveEvent ''{'') initialState =
        (Inr (), [error500 (SyntaxError ''Unexpected token'')], initialState)"
    for answer
  proof (rule unparsed)
    show "encodeURIComponent (exampleSaferNet answer) (payload (exampleSaveEvent ''{'')) = Inr ''{''
        \<and> JSON_parse (exampleSaferNet answer) (payload (exampleSaveEvent ''{''))
            = Inl (SyntaxError ''Unexpected token'')"
      using example_encode [of answer "''{''"] example_parse_fails [of answer]
      by (intro conjI)
  qed
  show ?thesis
    by (simp add: run fails)
qed

end
